theory Spec2Isabelle
  imports Main "HOL-Library.Sublist"
begin

section \<open>Jarvis Core: tools, session store and the two-phase orchestration loop\<close>

text \<open>
  A shallow embedding of \<^verbatim>\<open>main.py\<close> (the interactive agent) and \<^verbatim>\<open>server.py\<close> (the HTTP
  agent).  Everything outside the two files is a parameter of the model: the language model,
  LangChain's \<^verbatim>\<open>tool.invoke\<close>, the clock, the file system, the home directory and
  standard input.

  A Python \<^verbatim>\<open>str\<close> is a \<^typ>\<open>string\<close> holding its UTF-8 encoding, so a character
  outside ASCII is several bytes.  \<^verbatim>\<open>a in b\<close> on strings is \<^const>\<open>sublist\<close> and
  \<^verbatim>\<open>b.startswith(a)\<close> is \<^const>\<open>prefix\<close>; both are the same on UTF-8 bytes as on code
  points.  Where a Python operation counts or classifies characters (\<^verbatim>\<open>[:n]\<close>,
  \<^verbatim>\<open>strip\<close>), the model decodes the bytes.  \<^verbatim>\<open>lower\<close> and \<^verbatim>\<open>upper\<close> map the ASCII
  letters only: Python's case mapping of characters outside ASCII is not modelled.
\<close>

subsection \<open>Python strings\<close>

definition ascii_uppercase :: string where
  "ascii_uppercase = ''ABCDEFGHIJKLMNOPQRSTUVWXYZ''"

definition ascii_lowercase :: string where
  "ascii_lowercase = ''abcdefghijklmnopqrstuvwxyz''"

definition lower_char :: "char \<Rightarrow> char" where
  "lower_char c = (case map_of (zip ascii_uppercase ascii_lowercase) c of None \<Rightarrow> c | Some d \<Rightarrow> d)"

definition upper_char :: "char \<Rightarrow> char" where
  "upper_char c = (case map_of (zip ascii_lowercase ascii_uppercase) c of None \<Rightarrow> c | Some d \<Rightarrow> d)"

text \<open>\<^verbatim>\<open>s.lower()\<close> and \<^verbatim>\<open>s.upper()\<close>.\<close>

definition lower :: "string \<Rightarrow> string" where
  "lower s = map lower_char s"

definition upper :: "string \<Rightarrow> string" where
  "upper s = map upper_char s"

text \<open>
  \<^verbatim>\<open>s[:n]\<close> takes \<open>n\<close> characters, not bytes: a byte \<open>10xxxxxx\<close> continues the character
  before it.
\<close>

definition continuation_byte :: "char \<Rightarrow> bool" where
  "continuation_byte c = (digit7 c \<and> \<not> digit6 c)"

fun take_chars :: "nat \<Rightarrow> string \<Rightarrow> string" where
  "take_chars n [] = []"
| "take_chars n (c # cs) =
     (if continuation_byte c then c # take_chars n cs
      else (case n of 0 \<Rightarrow> [] | Suc m \<Rightarrow> c # take_chars m cs))"

text \<open>
  \<^verbatim>\<open>not s.strip()\<close>: the string is empty or made of whitespace only.  Python's whitespace
  is U+0009..U+000D, U+001C..U+0020, U+0085, U+00A0, U+1680, U+2000..U+200A, U+2028,
  U+2029, U+202F, U+205F and U+3000; the last three definitions are their UTF-8 encodings.
\<close>

definition space1 :: "char \<Rightarrow> bool" where
  "space1 a = (a \<in> set [CHR 0x09, CHR 0x0A, CHR 0x0B, CHR 0x0C, CHR 0x0D,
                         CHR 0x1C, CHR 0x1D, CHR 0x1E, CHR 0x1F, CHR 0x20])"

definition space2 :: "char \<Rightarrow> char \<Rightarrow> bool" where
  "space2 a b = (a = CHR 0xC2 \<and> (b = CHR 0x85 \<or> b = CHR 0xA0))"

definition space3 :: "char \<Rightarrow> char \<Rightarrow> char \<Rightarrow> bool" where
  "space3 a b c =
     ((a = CHR 0xE1 \<and> b = CHR 0x9A \<and> c = CHR 0x80) \<or>
      (a = CHR 0xE2 \<and> b = CHR 0x80 \<and>
         c \<in> set [CHR 0x80, CHR 0x81, CHR 0x82, CHR 0x83, CHR 0x84, CHR 0x85, CHR 0x86,
                  CHR 0x87, CHR 0x88, CHR 0x89, CHR 0x8A, CHR 0xA8, CHR 0xA9, CHR 0xAF]) \<or>
      (a = CHR 0xE2 \<and> b = CHR 0x81 \<and> c = CHR 0x9F) \<or>
      (a = CHR 0xE3 \<and> b = CHR 0x80 \<and> c = CHR 0x80))"

fun strip_is_empty :: "string \<Rightarrow> bool" where
  "strip_is_empty [] = True"
| "strip_is_empty [a] = space1 a"
| "strip_is_empty [a, b] = (if space1 a then strip_is_empty [b] else space2 a b)"
| "strip_is_empty (a # b # c # r) =
     (if space1 a then strip_is_empty (b # c # r)
      else if space2 a b then strip_is_empty (c # r)
      else space3 a b c \<and> strip_is_empty r)"

text \<open>
  \<^verbatim>\<open>repr(s)\<close> of a string, which is what \<^verbatim>\<open>str\<close> of a \<^verbatim>\<open>KeyError\<close> gives for its
  argument.  The quote is the double quote when the string holds a single quote and no
  double quote, and the single quote otherwise; the quote and the backslash are escaped
  with a backslash, tab, newline and carriage return are written with their letters, and
  the other control characters as \<^verbatim>\<open>\xhh\<close>.  Bytes from 0x80 on are kept: they encode
  characters outside ASCII, which \<^verbatim>\<open>repr\<close> keeps when they are printable (the letters of
  the messages below are); its escapes for unprintable ones are not modelled.
\<close>

definition repr_quote :: "string \<Rightarrow> char" where
  "repr_quote s = (if CHR 0x27 \<in> set s \<and> CHR 0x22 \<notin> set s then CHR 0x22 else CHR 0x27)"

definition hex_digit :: "nat \<Rightarrow> char" where
  "hex_digit k = ''0123456789abcdef'' ! (k mod 16)"

definition control_char :: "char \<Rightarrow> bool" where
  "control_char c = ((of_char c :: nat) < 32 \<or> c = CHR 0x7F)"

definition repr_char :: "char \<Rightarrow> char \<Rightarrow> string" where
  "repr_char quote c =
     (if c = quote \<or> c = CHR 0x5C then [CHR 0x5C, c]
      else if c = CHR 0x09 then [CHR 0x5C, CHR ''t'']
      else if c = CHR 0x0A then [CHR 0x5C, CHR ''n'']
      else if c = CHR 0x0D then [CHR 0x5C, CHR ''r'']
      else if control_char c
        then [CHR 0x5C, CHR ''x'', hex_digit (of_char c div 16), hex_digit (of_char c)]
      else [c])"

definition repr_body :: "char \<Rightarrow> string \<Rightarrow> string" where
  "repr_body quote s = concat (map (repr_char quote) s)"

definition py_repr :: "string \<Rightarrow> string" where
  "py_repr s = (let quote = repr_quote s in quote # repr_body quote s @ [quote])"

subsection \<open>The time tool of main.py\<close>

text \<open>
  \<^verbatim>\<open>zone_mapping\<close>, in the insertion order a Python dict iterates in.  The fourth key is
  the Korean word for Korea (two Hangul syllables, six bytes).
\<close>

definition zone_mapping :: "(string \<times> string) list" where
  "zone_mapping =
    [(''KST'', ''Asia/Seoul''), (''SEOUL'', ''Asia/Seoul''), (''KOREA'', ''Asia/Seoul''),
     ([CHR 0xED, CHR 0x95, CHR 0x9C, CHR 0xEA, CHR 0xB5, CHR 0xAD], ''Asia/Seoul''),
     (''CST'', ''America/Chicago''), (''TEXAS'', ''America/Chicago''),
     (''CHICAGO'', ''America/Chicago'')]"

text \<open>
  The \<^verbatim>\<open>for key, val in zone_mapping.items()\<close> loop with its \<^verbatim>\<open>break\<close>: the third
  argument is \<^verbatim>\<open>target_zone_str\<close> as it stands when the loop is entered.
\<close>

fun zone_loop :: "(string \<times> string) list \<Rightarrow> string \<Rightarrow> string \<Rightarrow> string" where
  "zone_loop [] query_upper target_zone_str = target_zone_str"
| "zone_loop ((key, val) # items) query_upper target_zone_str =
     (if sublist key query_upper then val else zone_loop items query_upper target_zone_str)"

definition target_zone :: "string \<Rightarrow> string" where
  "target_zone timezone_query =
     (let query_upper = upper timezone_query;
          target_zone_str = ''America/Chicago''
      in zone_loop zone_mapping query_upper target_zone_str)"

definition time_msg_prefix :: string where
  "time_msg_prefix =
     ''[System Data] '' @ [CHR 0xEC, CHR 0x9A, CHR 0x94, CHR 0xEC, CHR 0xB2, CHR 0xAD,
      CHR 0xED, CHR 0x95, CHR 0x98, CHR 0xEC, CHR 0x8B, CHR 0xA0] @ '' '' @ [CHR 0xEC,
      CHR 0xA7, CHR 0x80, CHR 0xEC, CHR 0x97, CHR 0xAD, CHR 0xEC, CHR 0x9D, CHR 0x98] @
      '' '' @ [CHR 0xEC, CHR 0xA0, CHR 0x95, CHR 0xED, CHR 0x99, CHR 0x95, CHR 0xED,
      CHR 0x95, CHR 0x9C] @ '' '' @ [CHR 0xEC, CHR 0x8B, CHR 0x9C, CHR 0xEC, CHR 0x8A,
      CHR 0xA4, CHR 0xED, CHR 0x85, CHR 0x9C] @ '' '' @ [CHR 0xEC, CHR 0x8B, CHR 0x9C,
      CHR 0xEA, CHR 0xB0, CHR 0x84, CHR 0xEC, CHR 0x9D, CHR 0x80] @ '' ''"

definition time_msg_suffix :: string where
  "time_msg_suffix =
     '' '' @ [CHR 0xEC, CHR 0x9E, CHR 0x85, CHR 0xEB, CHR 0x8B, CHR 0x88, CHR 0xEB, CHR 0x8B,
      CHR 0xA4] @ ''. '' @ [CHR 0xEC, CHR 0xA0, CHR 0x88, CHR 0xEB, CHR 0x8C, CHR 0x80] @
      '' '' @ [CHR 0xEC, CHR 0x9D, CHR 0xB4] @ '' '' @ [CHR 0xEC, CHR 0x8B, CHR 0x9C,
      CHR 0xEA, CHR 0xB0, CHR 0x84, CHR 0xEC, CHR 0x9D, CHR 0x84] @ '' '' @ [CHR 0xEC,
      CHR 0x9E, CHR 0x84, CHR 0xEC, CHR 0x9D, CHR 0x98, CHR 0xEB, CHR 0xA1, CHR 0x9C] @
      '' '' @ [CHR 0xEB, CHR 0x8D, CHR 0x94, CHR 0xED, CHR 0x95, CHR 0x98, CHR 0xEA,
      CHR 0xB1, CHR 0xB0, CHR 0xEB, CHR 0x82, CHR 0x98] @ '' '' @ [CHR 0xEB, CHR 0xB9,
      CHR 0xBC, CHR 0xEC, CHR 0xA7, CHR 0x80] @ '' '' @ [CHR 0xEB, CHR 0xA7, CHR 0x90,
      CHR 0xEA, CHR 0xB3, CHR 0xA0] @ '', '' @ [CHR 0xEA, CHR 0xB7, CHR 0xB8, CHR 0xEB,
      CHR 0x8C, CHR 0x80, CHR 0xEB, CHR 0xA1, CHR 0x9C] @ '' '' @ [CHR 0xEC, CHR 0xB6,
      CHR 0x9C, CHR 0xEB, CHR 0xA0, CHR 0xA5, CHR 0xED, CHR 0x95, CHR 0x98, CHR 0xEC,
      CHR 0x8B, CHR 0xAD, CHR 0xEC, CHR 0x8B, CHR 0x9C, CHR 0xEC, CHR 0x98, CHR 0xA4] @ ''.''"

text \<open>
  \<^verbatim>\<open>get_current_time\<close>.  The parameter \<open>clock\<close> stands for \<^verbatim>\<open>ZoneInfo(zone)\<close> followed by
  \<^verbatim>\<open>datetime.now(zone).strftime(...)\<close>: for a zone name it gives the formatted local time,
  or \<open>Inl\<close> the text of the exception raised on the way.  A call without an argument
  is the call with \<^verbatim>\<open>CST\<close>, the default of the parameter.
\<close>

definition get_current_time :: "(string \<Rightarrow> string + string) \<Rightarrow> string \<Rightarrow> string" where
  "get_current_time clock timezone_query =
     (case clock (target_zone timezone_query) of
        Inr now \<Rightarrow> time_msg_prefix @ now @ time_msg_suffix
      | Inl e \<Rightarrow> ''Error computing time: '' @ e)"


subsection \<open>Paths and the file-read tool of server.py\<close>

text \<open>
  An absolute POSIX path is the list of its components below the root; \<^verbatim>\<open>str(path)\<close>
  writes them with slashes.  The file system has no symbolic links, so
  \<^verbatim>\<open>Path.resolve()\<close> only removes the \<^verbatim>\<open>..\<close> components, each with the component before
  it (at the root there is none to remove).
\<close>

type_synonym path = "string list"

definition str_path :: "path \<Rightarrow> string" where
  "str_path p = (if p = [] then ''/'' else concat (map (\<lambda>c. CHR ''/'' # c) p))"

text \<open>\<^verbatim>\<open>path.name\<close>: the last component, empty for the root.\<close>

definition path_name :: "path \<Rightarrow> string" where
  "path_name p = (if p = [] then [] else last p)"

text \<open>\<^verbatim>\<open>s.split('/')\<close>.\<close>

fun split_slash :: "string \<Rightarrow> string list" where
  "split_slash [] = [[]]"
| "split_slash (c # cs) =
     (if c = CHR ''/'' then [] # split_slash cs
      else (case split_slash cs of [] \<Rightarrow> [[c]] | w # ws \<Rightarrow> (c # w) # ws))"

text \<open>
  \<^verbatim>\<open>base_dir / file_path\<close>: pathlib drops the empty and the \<^verbatim>\<open>.\<close> components of an
  argument, and an argument that starts with a slash replaces what stands before it.
  The result may still hold \<^verbatim>\<open>..\<close> components.
\<close>

definition parse_parts :: "string \<Rightarrow> string list" where
  "parse_parts s = filter (\<lambda>x. x \<noteq> [] \<and> x \<noteq> ''.'') (split_slash s)"

definition joinpath :: "path \<Rightarrow> string \<Rightarrow> string list" where
  "joinpath base_dir file_path =
     (if prefix ''/'' file_path then parse_parts file_path
      else base_dir @ parse_parts file_path)"

text \<open>
  \<^verbatim>\<open>resolve()\<close>, which is \<^verbatim>\<open>os.path.realpath\<close>: the loop of \<^verbatim>\<open>_joinrealpath\<close> over the
  components, from the root.  \<^verbatim>\<open>os.lstat\<close> raises \<^verbatim>\<open>ValueError\<close> on a name with a NUL
  byte, which \<^verbatim>\<open>realpath\<close> does not catch.
\<close>

fun joinrealpath :: "path \<Rightarrow> string list \<Rightarrow> path" where
  "joinrealpath path [] = path"
| "joinrealpath path (name # rest) =
     (if name = ''..'' then joinrealpath (butlast path) rest
      else joinrealpath (path @ [name]) rest)"

definition resolve :: "string list \<Rightarrow> string + path" where
  "resolve parts =
     (if list_ex (\<lambda>name. CHR 0x00 \<in> set name) parts then Inl ''embedded null byte''
      else Inr (joinrealpath [] parts))"

text \<open>
  The file system: for a path, nothing (it does not exist), the text \<^verbatim>\<open>open\<close> and
  \<^verbatim>\<open>read\<close> give, or the text of the exception they raise (a directory, a file that is not
  UTF-8, a missing permission).
\<close>

datatype fs_entry = Content string | Unreadable string

type_synonym filesystem = "path \<Rightarrow> fs_entry option"

definition security_violation :: string where
  "security_violation =
     ''[Error] Security Violation: Attempted to access files outside the project directory.''"

text \<open>
  \<^verbatim>\<open>read_local_file\<close> of server.py.  \<open>home\<close> is \<^verbatim>\<open>Path.home()\<close>.  The result is the string
  the tool returns and the paths it passed to \<^verbatim>\<open>open\<close>.
\<close>

definition read_local_file :: "path \<Rightarrow> filesystem \<Rightarrow> string \<Rightarrow> string \<times> path list" where
  "read_local_file home fs file_path =
     (let base_dir = home @ [''Desktop'', ''portfolio''] in
      case resolve (joinpath base_dir file_path) of
        Inl e \<Rightarrow> (''[Error] Failed to read file: '' @ e, [])
      | Inr target_path \<Rightarrow>
          if \<not> prefix (str_path base_dir) (str_path target_path)
          then (security_violation, [])
          else (case fs target_path of
                  None \<Rightarrow> (''[Error] File not found at '' @ str_path target_path, [])
                | Some (Unreadable e) \<Rightarrow> (''[Error] Failed to read file: '' @ e, [target_path])
                | Some (Content content) \<Rightarrow>
                    (''[File Content of '' @ path_name target_path @ '']'' @ [CHR 0x0A] @ content,
                     [target_path])))"

text \<open>
  What the spec means by a path inside the base directory: the base directory itself or
  something below it, component by component.
\<close>

definition inside :: "path \<Rightarrow> path \<Rightarrow> bool" where
  "inside base_dir p = prefix base_dir p"

subsection \<open>Messages, exceptions and the outside world\<close>

type_synonym args = "(string \<times> string) list"

text \<open>A tool request of the model: the dict with the keys name, args and id.\<close>

record tool_call =
  tc_name :: string
  tc_args :: args
  tc_id :: string

text \<open>What the model returns: an assistant message with its text and its tool requests.\<close>

record ai_message =
  content :: string
  tool_calls :: "tool_call list"

text \<open>\<^verbatim>\<open>ToolMessage\<close> carries \<^verbatim>\<open>tool_call_id\<close>, \<^verbatim>\<open>name\<close> and \<^verbatim>\<open>content\<close>, in this order.\<close>

datatype message =
    SystemMessage string
  | HumanMessage string
  | AIMessage ai_message
  | ToolMessage string string string

text \<open>
  An exception is a \<^verbatim>\<open>KeyError\<close> with its (string) argument, or any other
  \<^verbatim>\<open>Exception\<close> with its text.  \<^verbatim>\<open>str(e)\<close> of a \<^verbatim>\<open>KeyError\<close> is the \<^verbatim>\<open>repr\<close> of the
  argument.
\<close>

datatype exn = KeyError string | Exception string

fun str_exn :: "exn \<Rightarrow> string" where
  "str_exn (KeyError k) = py_repr k"
| "str_exn (Exception s) = s"

text \<open>
  What a run does to the outside, in order: a call of the model with the history it is
  given, a call of a registered tool (its registry key and its arguments), a line printed,
  a line read from standard input after a prompt.
\<close>

datatype event =
    ModelInvoke "message list"
  | ToolInvoke string args
  | Print string
  | Input string

text \<open>
  The outside world has a state \<open>'w\<close> of its own, which the model and the tools read and
  change: \<open>llm\<close> is \<^verbatim>\<open>jarvis_engine.invoke\<close>, \<open>tool_invoke name\<close> is \<^verbatim>\<open>invoke\<close> of the tool
  registered under \<open>name\<close> (LangChain's validation of the arguments and the tool's body).
  Both may raise.
\<close>

record 'w env =
  llm :: "message list \<Rightarrow> 'w \<Rightarrow> (exn + ai_message) \<times> 'w"
  tool_invoke :: "string \<Rightarrow> args \<Rightarrow> 'w \<Rightarrow> (exn + string) \<times> 'w"
  init_failure :: "exn option"

record 'w io =
  world :: 'w
  trace :: "event list"

definition emit :: "event \<Rightarrow> ('w, 'z) io_scheme \<Rightarrow> ('w, 'z) io_scheme" where
  "emit e st = st\<lparr>trace := trace st @ [e]\<rparr>"

definition invoke_llm ::
  "'w env \<Rightarrow> message list \<Rightarrow> ('w, 'z) io_scheme \<Rightarrow> (exn + ai_message) \<times> ('w, 'z) io_scheme" where
  "invoke_llm env history st =
     (case llm env history (world st) of
        (r, w) \<Rightarrow> (r, emit (ModelInvoke history) (st\<lparr>world := w\<rparr>)))"

definition invoke_tool ::
  "'w env \<Rightarrow> string \<Rightarrow> args \<Rightarrow> ('w, 'z) io_scheme \<Rightarrow> (exn + string) \<times> ('w, 'z) io_scheme" where
  "invoke_tool env name arguments st =
     (case tool_invoke env name arguments (world st) of
        (r, w) \<Rightarrow> (r, emit (ToolInvoke name arguments) (st\<lparr>world := w\<rparr>)))"

text \<open>
  \<^verbatim>\<open>tools_map = {tool.name: tool for tool in tools}\<close>: the registry, given the names of
  \<^verbatim>\<open>tools\<close>.  \<open>None\<close> is a name that is not a key.
\<close>

definition tools_map ::
  "string list \<Rightarrow> string \<Rightarrow> string option" where
  "tools_map names name = (if name \<in> set names then Some name else None)"

text \<open>The calls of the model and of the tools in a trace, in order.\<close>

datatype call = ModelCall | ToolCall string args

fun calls_of :: "event list \<Rightarrow> call list" where
  "calls_of [] = []"
| "calls_of (ModelInvoke h # es) = ModelCall # calls_of es"
| "calls_of (ToolInvoke n a # es) = ToolCall n a # calls_of es"
| "calls_of (Print s # es) = calls_of es"
| "calls_of (Input s # es) = calls_of es"

subsection \<open>The interactive agent: main.py\<close>

definition main_tool_names :: "string list" where
  "main_tool_names = [''get_current_time'', ''read_local_file'', ''search_memory'', ''web_search'']"

text \<open>The texts main.py prints, reads or puts into messages, most of them Korean.\<close>

definition main_system_prompt :: string where
  "main_system_prompt =
     [CHR 0x0A] @ ''        You are '' @ [CHR 0x27] @ ''Jarvis Core'' @ [CHR 0x27] @
      '', an elite AI architecture reviewer and strict technical interviewer.'' @
      [CHR 0x0A] @ ''        '' @ [CHR 0x0A] @ ''        [User Context]'' @ [CHR 0x0A] @
      ''        - User Name: '' @ [CHR 0xEC, CHR 0xA7, CHR 0x80, CHR 0xEC, CHR 0x9B,
      CHR 0x85] @ '' (Jiwoong)'' @ [CHR 0x0A] @
      ''        - Location: Carrollton, Texas (Timezone: CST)'' @ [CHR 0x0A] @
      ''        - Current Focus: Developing '' @ [CHR 0x27] @ ''smart-freight-ai'' @
      [CHR 0x27] @ '' and studying C programming.'' @ [CHR 0x0A] @ ''        '' @
      [CHR 0x0A] @ ''        [Core Directives & Rules]'' @ [CHR 0x0A] @
      ''        1. [Language] ALWAYS answer in Korean concisely, but MUST use '' @
      ''precise English terminology for engineering concepts (e.g., Memory Lea'' @
      ''k, Pointer Aliasing, Time Complexity).'' @ [CHR 0x0A] @
      ''        2. [Tool Routing] '' @ [CHR 0x0A] @
      ''           - For past rules, vehicle info, or project context -> USE '' @
      [CHR 0x27] @ ''search_memory'' @ [CHR 0x27] @ ''.'' @ [CHR 0x0A] @
      ''           - For real-time news or external facts -> USE '' @ [CHR 0x27] @
      ''web_search'' @ [CHR 0x27] @ ''.'' @ [CHR 0x0A] @
      ''           - For code analysis -> USE '' @ [CHR 0x27] @ ''read_local_file'' @
      [CHR 0x27] @ ''.'' @ [CHR 0x0A] @
      ''        3. [Interviewer Mode] When the user provides C code or algorit'' @
      ''hm designs:'' @ [CHR 0x0A] @
      ''           - NEVER just summarize. You MUST aggressively hunt for vuln'' @
      ''erabilities.'' @ [CHR 0x0A] @
      ''           - Check strictly for Memory Leaks (malloc/free pairs), Dang'' @
      ''ling Pointers, and Buffer Overflows.'' @ [CHR 0x0A] @
      ''           - Analyze the Big-O Time/Space Complexity.'' @ [CHR 0x0A] @
      ''           - ALWAYS end your response with a sharp, challenging follow'' @
      ''-up question ('' @ [CHR 0xEA, CHR 0xBC, CHR 0xAC, CHR 0xEB, CHR 0xA6, CHR 0xAC] @
      '' '' @ [CHR 0xEC, CHR 0xA7, CHR 0x88, CHR 0xEB, CHR 0xAC, CHR 0xB8] @
      '') like a strict Silicon Valley interviewer.'' @ [CHR 0x0A] @
      ''        4. [Tool Restriction] YOU MUST ONLY USE THE PROVIDED TOOLS. NE'' @
      ''VER invent or hallucinate tool names like '' @ [CHR 0x27] @ ''weather_api'' @
      [CHR 0x27] @ ''. If you need weather info, use '' @ [CHR 0x27] @ ''web_search'' @
      [CHR 0x27] @ ''.'' @ [CHR 0x0A] @
      ''        5. [Output Format] NEVER output raw JSON to the user. All JSON'' @
      '' tool calls must be processed silently by the system.'' @ [CHR 0x0A] @
      ''        6. [Zero-Hallucination Policy] If a tool returns an error mess'' @
      ''age (e.g., '' @ [CHR 0x22] @ ''[Error]'' @ [CHR 0x22] @
      ''), YOU MUST NOT invent or guess the answer. You MUST explicitly tell t'' @
      ''he user that the tool failed and provide the exact error reason.'' @ [CHR 0x0A] @
      ''        ''"

definition txt_booting :: string where
  "txt_booting =
     ''[System] Jarvis Core '' @ [CHR 0xEC, CHR 0x97, CHR 0x94, CHR 0xEC, CHR 0xA7,
      CHR 0x84] @ '' '' @ [CHR 0xEB, CHR 0xB6, CHR 0x80, CHR 0xED, CHR 0x8C, CHR 0x85] @
      '' '' @ [CHR 0xEC, CHR 0xA4, CHR 0x91] @ ''... (Agentic Mode + RAG Memory)''"

definition txt_init_failed :: string where
  "txt_init_failed =
     ''[Error] '' @ [CHR 0xEC, CHR 0x97, CHR 0x94, CHR 0xEC, CHR 0xA7, CHR 0x84] @ '' '' @
      [CHR 0xEC, CHR 0xB4, CHR 0x88, CHR 0xEA, CHR 0xB8, CHR 0xB0, CHR 0xED, CHR 0x99,
      CHR 0x94] @ '' '' @ [CHR 0xEC, CHR 0x8B, CHR 0xA4, CHR 0xED, CHR 0x8C, CHR 0xA8] @
      '': ''"

definition txt_session_started :: string where
  "txt_session_started =
     [CHR 0x0A] @ ''[System] Jarvis Agent '' @ [CHR 0xEC, CHR 0x84, CHR 0xB8, CHR 0xEC,
      CHR 0x85, CHR 0x98, CHR 0xEC, CHR 0x9D, CHR 0xB4] @ '' '' @ [CHR 0xEC, CHR 0x8B,
      CHR 0x9C, CHR 0xEC, CHR 0x9E, CHR 0x91, CHR 0xEB, CHR 0x90, CHR 0x98, CHR 0xEC,
      CHR 0x97, CHR 0x88, CHR 0xEC, CHR 0x8A, CHR 0xB5, CHR 0xEB, CHR 0x8B, CHR 0x88,
      CHR 0xEB, CHR 0x8B, CHR 0xA4] @ ''. ('' @ [CHR 0xEC, CHR 0xA2, CHR 0x85, CHR 0xEB,
      CHR 0xA3, CHR 0x8C] @ '': '' @ [CHR 0x27] @ ''quit'' @ [CHR 0x27] @ '')''"

definition txt_user_prompt :: string where
  "txt_user_prompt = [CHR 0x0A] @ ''[User] ''"

definition txt_running_tool_1 :: string where
  "txt_running_tool_1 =
     ''[System] '' @ [CHR 0xE2, CHR 0x9A, CHR 0xA1, CHR 0xEF, CHR 0xB8, CHR 0x8F] @
      '' Jarvis'' @ [CHR 0xEA, CHR 0xB0, CHR 0x80] @ '' '' @ [CHR 0xEB, CHR 0x8F, CHR 0x84,
      CHR 0xEA, CHR 0xB5, CHR 0xAC] @ ''(''"

definition txt_running_tool_2 :: string where
  "txt_running_tool_2 =
     '')'' @ [CHR 0xEB, CHR 0xA5, CHR 0xBC] @ '' '' @ [CHR 0xEC, CHR 0x8B, CHR 0xA4,
      CHR 0xED, CHR 0x96, CHR 0x89, CHR 0xED, CHR 0x95, CHR 0x98, CHR 0xEB, CHR 0xA0,
      CHR 0xA4] @ '' '' @ [CHR 0xED, CHR 0x95, CHR 0xA9, CHR 0xEB, CHR 0x8B, CHR 0x88,
      CHR 0xEB, CHR 0x8B, CHR 0xA4] @ ''...''"

definition txt_approval_prompt :: string where
  "txt_approval_prompt =
     ''['' @ [CHR 0xEA, CHR 0xB2, CHR 0xBD, CHR 0xEA, CHR 0xB3, CHR 0xA0] @ ''] '' @
      [CHR 0xEC, CHR 0x82, CHR 0xAD, CHR 0xEC, CHR 0xA0, CHR 0x9C] @ '' '' @ [CHR 0xEC,
      CHR 0x9A, CHR 0x94, CHR 0xEC, CHR 0xB2, CHR 0xAD] @ '' '' @ [CHR 0xEC, CHR 0x8A,
      CHR 0xB9, CHR 0xEC, CHR 0x9D, CHR 0xB8] @ ''? (y/n): ''"

definition txt_no_such_tool :: string where
  "txt_no_such_tool =
     [CHR 0x27] @ '' '' @ [CHR 0xEB, CHR 0x8F, CHR 0x84, CHR 0xEA, CHR 0xB5, CHR 0xAC,
      CHR 0xEB, CHR 0x8A, CHR 0x94] @ '' '' @ [CHR 0xEC, CHR 0xA1, CHR 0xB4, CHR 0xEC,
      CHR 0x9E, CHR 0xAC, CHR 0xED, CHR 0x95, CHR 0x98, CHR 0xEC, CHR 0xA7, CHR 0x80] @
      '' '' @ [CHR 0xEC, CHR 0x95, CHR 0x8A, CHR 0xEC, CHR 0x8A, CHR 0xB5, CHR 0xEB,
      CHR 0x8B, CHR 0x88, CHR 0xEB, CHR 0x8B, CHR 0xA4] @ ''.''"

definition txt_debug_preview :: string where
  "txt_debug_preview =
     ''[System Debug] '' @ [CHR 0xF0, CHR 0x9F, CHR 0x94, CHR 0x8D] @ '' '' @ [CHR 0xEB,
      CHR 0x8F, CHR 0x84, CHR 0xEA, CHR 0xB5, CHR 0xAC] @ '' '' @ [CHR 0xEB, CHR 0xB0,
      CHR 0x98, CHR 0xED, CHR 0x99, CHR 0x98, CHR 0xEA, CHR 0xB0, CHR 0x92] @ ''('' @
      [CHR 0xEB, CHR 0xAF, CHR 0xB8, CHR 0xEB, CHR 0xA6, CHR 0xAC, CHR 0xEB, CHR 0xB3,
      CHR 0xB4, CHR 0xEA, CHR 0xB8, CHR 0xB0] @ ''): ''"

definition txt_use_only :: string where
  "txt_use_only =
     '' '' @ [CHR 0xEC, CHR 0x82, CHR 0xAC, CHR 0xEC, CHR 0x9A, CHR 0xA9, CHR 0xED, CHR 0x95,
      CHR 0xA0] @ '' '' @ [CHR 0xEC, CHR 0x88, CHR 0x98] @ '' '' @ [CHR 0xEC, CHR 0x9E,
      CHR 0x88, CHR 0xEB, CHR 0x8A, CHR 0x94] @ '' '' @ [CHR 0xEB, CHR 0x8F, CHR 0x84,
      CHR 0xEA, CHR 0xB5, CHR 0xAC, CHR 0xEB, CHR 0xA7, CHR 0x8C] @ '' '' @ [CHR 0xEC,
      CHR 0x82, CHR 0xAC, CHR 0xEC, CHR 0x9A, CHR 0xA9, CHR 0xED, CHR 0x95, CHR 0x98,
      CHR 0xEC, CHR 0x84, CHR 0xB8, CHR 0xEC, CHR 0x9A, CHR 0x94] @ ''.''"

definition txt_wrong_tool :: string where
  "txt_wrong_tool =
     ''[Error] '' @ [CHR 0xEB, CHR 0xAA, CHR 0xA8, CHR 0xEB, CHR 0x8D, CHR 0xB8, CHR 0xEC,
      CHR 0x9D, CHR 0xB4] @ '' '' @ [CHR 0xEC, CHR 0x9E, CHR 0x98, CHR 0xEB, CHR 0xAA,
      CHR 0xBB, CHR 0xEB, CHR 0x90, CHR 0x9C] @ '' '' @ [CHR 0xEB, CHR 0x8F, CHR 0x84,
      CHR 0xEA, CHR 0xB5, CHR 0xAC, CHR 0xEB, CHR 0xA5, CHR 0xBC] @ '' '' @ [CHR 0xED,
      CHR 0x98, CHR 0xB8, CHR 0xEC, CHR 0xB6, CHR 0x9C, CHR 0xED, CHR 0x96, CHR 0x88,
      CHR 0xEC, CHR 0x8A, CHR 0xB5, CHR 0xEB, CHR 0x8B, CHR 0x88, CHR 0xEB, CHR 0x8B,
      CHR 0xA4] @ '': ''"

definition txt_tool_failed :: string where
  "txt_tool_failed =
     ''[System Fallback] '' @ [CHR 0xEB, CHR 0x8F, CHR 0x84, CHR 0xEA, CHR 0xB5, CHR 0xAC] @
      '' '' @ [CHR 0xEC, CHR 0x8B, CHR 0xA4, CHR 0xED, CHR 0x96, CHR 0x89] @ '' '' @
      [CHR 0xEC, CHR 0x8B, CHR 0xA4, CHR 0xED, CHR 0x8C, CHR 0xA8] @ '': ''"

definition txt_tool_error :: string where
  "txt_tool_error =
     ''[Error] '' @ [CHR 0xEB, CHR 0x8F, CHR 0x84, CHR 0xEA, CHR 0xB5, CHR 0xAC] @ '' '' @
      [CHR 0xEC, CHR 0x8B, CHR 0xA4, CHR 0xED, CHR 0x96, CHR 0x89] @ '' '' @ [CHR 0xEC,
      CHR 0xA4, CHR 0x91] @ '' '' @ [CHR 0xEC, CHR 0x97, CHR 0x90, CHR 0xEB, CHR 0x9F,
      CHR 0xAC] @ '': ''"

definition txt_empty_answer :: string where
  "txt_empty_answer =
     ''[Jarvis] ('' @ [CHR 0xEB, CHR 0x8D, CHR 0xB0, CHR 0xEC, CHR 0x9D, CHR 0xB4, CHR 0xED,
      CHR 0x84, CHR 0xB0, CHR 0xEB, CHR 0xA5, CHR 0xBC] @ '' '' @ [CHR 0xED, CHR 0x99,
      CHR 0x95, CHR 0xEC, CHR 0x9D, CHR 0xB8, CHR 0xED, CHR 0x96, CHR 0x88, CHR 0xEC,
      CHR 0x9C, CHR 0xBC, CHR 0xEB, CHR 0x82, CHR 0x98] @ '' '' @ [CHR 0xEB, CHR 0x8B,
      CHR 0xB5, CHR 0xEB, CHR 0xB3, CHR 0x80] @ '' '' @ [CHR 0xEC, CHR 0x83, CHR 0x9D,
      CHR 0xEC, CHR 0x84, CHR 0xB1] @ '' '' @ [CHR 0xEC, CHR 0xA4, CHR 0x91] @ '' '' @
      [CHR 0xEC, CHR 0x98, CHR 0xA4, CHR 0xEB, CHR 0xA5, CHR 0x98, CHR 0xEA, CHR 0xB0,
      CHR 0x80] @ '' '' @ [CHR 0xEB, CHR 0xB0, CHR 0x9C, CHR 0xEC, CHR 0x83, CHR 0x9D,
      CHR 0xED, CHR 0x96, CHR 0x88, CHR 0xEC, CHR 0x8A, CHR 0xB5, CHR 0xEB, CHR 0x8B,
      CHR 0x88, CHR 0xEB, CHR 0x8B, CHR 0xA4] @ ''. '' @ [CHR 0xEB, CHR 0x8F, CHR 0x84,
      CHR 0xEA, CHR 0xB5, CHR 0xAC, CHR 0xEC, CHR 0x9D, CHR 0x98] @ '' Raw Data'' @
      [CHR 0xEB, CHR 0xA5, CHR 0xBC] @ '' '' @ [CHR 0xED, CHR 0x99, CHR 0x95, CHR 0xEC,
      CHR 0x9D, CHR 0xB8, CHR 0xED, CHR 0x95, CHR 0x98, CHR 0xEC, CHR 0x8B, CHR 0xAD,
      CHR 0xEC, CHR 0x8B, CHR 0x9C, CHR 0xEC, CHR 0x98, CHR 0xA4] @ ''.)''"

definition txt_critical :: string where
  "txt_critical =
     ''[Critical Error] Agent '' @ [CHR 0xED, CHR 0x8C, CHR 0x8C, CHR 0xEC, CHR 0x9D,
      CHR 0xB4, CHR 0xED, CHR 0x94, CHR 0x84, CHR 0xEB, CHR 0x9D, CHR 0xBC, CHR 0xEC,
      CHR 0x9D, CHR 0xB8] @ '' '' @ [CHR 0xEB, CHR 0xB6, CHR 0x95, CHR 0xEA, CHR 0xB4,
      CHR 0xB4] @ '': ''"

text \<open>
  The state of the interactive agent: the one history \<^verbatim>\<open>chat_history\<close>, and the lines
  still to come on standard input.
\<close>

record 'w main_state = "'w io" +
  chat_history :: "message list"
  stdin :: "string list"

definition append_message :: "message \<Rightarrow> 'w main_state \<Rightarrow> 'w main_state" where
  "append_message m st = st\<lparr>chat_history := chat_history st @ [m]\<rparr>"

text \<open>
  \<^verbatim>\<open>input(prompt)\<close>: the next line of standard input, or \<^verbatim>\<open>EOFError\<close> when there is
  none.
\<close>

definition read_input :: "string \<Rightarrow> 'w main_state \<Rightarrow> (exn + string) \<times> 'w main_state" where
  "read_input prompt st =
     (case stdin st of
        [] \<Rightarrow> (Inl (Exception ''EOF when reading a line''), emit (Input prompt) st)
      | line # rest \<Rightarrow> (Inr line, emit (Input prompt) (st\<lparr>stdin := rest\<rparr>)))"

text \<open>
  The inner \<^verbatim>\<open>try\<close> of the tool loop with its two handlers: the result is
  \<^verbatim>\<open>tool_output\<close>.  A name that is not in the registry raises the \<^verbatim>\<open>KeyError\<close> of the
  source; a \<^verbatim>\<open>KeyError\<close> out of a tool is handled by the same clause.
\<close>

definition main_try_tool :: "'w env \<Rightarrow> tool_call \<Rightarrow> 'w main_state \<Rightarrow> (exn + string) \<times> 'w main_state" where
  "main_try_tool env tool_call st =
     (let tool_name = tc_name tool_call in
      case tools_map main_tool_names (lower tool_name) of
        None \<Rightarrow> (Inl (KeyError ([CHR 0x27] @ tool_name @ txt_no_such_tool)), st)
      | Some selected_tool \<Rightarrow>
          (case invoke_tool env selected_tool (tc_args tool_call) st of
             (Inl e, st1) \<Rightarrow> (Inl e, st1)
           | (Inr tool_output, st1) \<Rightarrow>
               (Inr tool_output,
                emit (Print (txt_debug_preview @ take_chars 150 tool_output @ ''...'')) st1)))"

definition main_run_tool :: "'w env \<Rightarrow> tool_call \<Rightarrow> 'w main_state \<Rightarrow> string \<times> 'w main_state" where
  "main_run_tool env tool_call st =
     (let tool_name = tc_name tool_call in
      case main_try_tool env tool_call st of
        (Inr tool_output, st1) \<Rightarrow> (tool_output, st1)
      | (Inl (KeyError k), st1) \<Rightarrow>
          (''[System Fallback] '' @ str_exn (KeyError k) @ txt_use_only,
           emit (Print (txt_wrong_tool @ tool_name)) st1)
      | (Inl (Exception s), st1) \<Rightarrow>
          (txt_tool_failed @ str_exn (Exception s),
           emit (Print (txt_tool_error @ str_exn (Exception s))) st1))"

text \<open>
  One round of \<^verbatim>\<open>for tool_call in response.tool_calls\<close>.  The result is \<open>Some e\<close> when the
  exception \<open>e\<close> leaves the loop (only \<^verbatim>\<open>input\<close> can raise it), \<open>None\<close> when the loop goes
  on.
\<close>

definition main_tool_call :: "'w env \<Rightarrow> tool_call \<Rightarrow> 'w main_state \<Rightarrow> exn option \<times> 'w main_state" where
  "main_tool_call env tool_call st =
     (let tool_name = tc_name tool_call;
          st1 = emit (Print (txt_running_tool_1 @ tool_name @ txt_running_tool_2)) st;
          observe = (\<lambda>st2. case main_run_tool env tool_call st2 of
                        (tool_output, st3) \<Rightarrow>
                          (None, append_message
                                   (ToolMessage (tc_id tool_call) tool_name tool_output) st3))
      in if tool_name = ''delete_database_table''
         then (case read_input txt_approval_prompt st1 of
                 (Inl e, st2) \<Rightarrow> (Some e, st2)
               | (Inr approval, st2) \<Rightarrow>
                   if lower approval \<noteq> ''y''
                   then (None, append_message
                                 (ToolMessage (tc_id tool_call) tool_name ''User denied.'') st2)
                   else observe st2)
         else observe st1)"

fun main_tool_loop :: "'w env \<Rightarrow> tool_call list \<Rightarrow> 'w main_state \<Rightarrow> exn option \<times> 'w main_state" where
  "main_tool_loop env [] st = (None, st)"
| "main_tool_loop env (tool_call # rest) st =
     (case main_tool_call env tool_call st of
        (Some e, st1) \<Rightarrow> (Some e, st1)
      | (None, st1) \<Rightarrow> main_tool_loop env rest st1)"

text \<open>
  The outer \<^verbatim>\<open>try\<close> after the first call of the model has returned \<open>response\<close>: the tool
  phase and the second call, or the plain answer.
\<close>

definition main_respond :: "'w env \<Rightarrow> ai_message \<Rightarrow> 'w main_state \<Rightarrow> exn option \<times> 'w main_state" where
  "main_respond env response st =
     (let st1 = append_message (AIMessage response) st in
      if tool_calls response \<noteq> []
      then (case main_tool_loop env (tool_calls response) st1 of
              (Some e, st2) \<Rightarrow> (Some e, st2)
            | (None, st2) \<Rightarrow>
                (case invoke_llm env (chat_history st2) st2 of
                   (Inl e, st3) \<Rightarrow> (Some e, st3)
                 | (Inr final_response, st3) \<Rightarrow>
                     (let st4 = append_message (AIMessage final_response) st3 in
                      if strip_is_empty (content final_response)
                      then (None, emit (Print txt_empty_answer) st4)
                      else (None, emit (Print (''[Jarvis] '' @ content final_response)) st4))))
      else (None, emit (Print (''[Jarvis] '' @ content response)) st1))"

definition main_try :: "'w env \<Rightarrow> 'w main_state \<Rightarrow> exn option \<times> 'w main_state" where
  "main_try env st =
     (case invoke_llm env (chat_history st) st of
        (Inl e, st1) \<Rightarrow> (Some e, st1)
      | (Inr response, st1) \<Rightarrow> main_respond env response st1)"

text \<open>
  One round of \<^verbatim>\<open>while True\<close>.  The round ends the program (\<^verbatim>\<open>quit\<close>, \<^verbatim>\<open>exit\<close>, or an
  \<^verbatim>\<open>EOFError\<close> of the first \<^verbatim>\<open>input\<close>, which nothing catches) or the loop goes on.
\<close>

datatype outcome = Finished | Crashed exn | Exited nat

definition main_round :: "'w env \<Rightarrow> 'w main_state \<Rightarrow> outcome option \<times> 'w main_state" where
  "main_round env st =
     (case read_input txt_user_prompt st of
        (Inl e, st1) \<Rightarrow> (Some (Crashed e), st1)
      | (Inr user_input, st1) \<Rightarrow>
          if lower user_input \<in> set [''quit'', ''exit''] then (Some Finished, st1)
          else (let st2 = append_message (HumanMessage user_input) st1 in
                case main_try env st2 of
                  (None, st3) \<Rightarrow> (None, st3)
                | (Some e, st3) \<Rightarrow> (None, emit (Print (txt_critical @ str_exn e)) st3)))"

subsection \<open>The HTTP agent: server.py\<close>

definition server_tool_names :: "string list" where
  "server_tool_names = [''web_search'', ''read_local_file'', ''search_memory'']"

definition server_system_prompt :: string where
  "server_system_prompt =
     [CHR 0x0A] @ ''            You are '' @ [CHR 0x27] @ ''Jarvis Core'' @ [CHR 0x27] @
      '', an elite AI architecture reviewer and autonomous agent.'' @ [CHR 0x0A] @
      ''            You are assisting Jiwoong with the '' @ [CHR 0x27] @
      ''smart-freight-ai'' @ [CHR 0x27] @ '' project and reviewing C programming code.'' @
      [CHR 0x0A] @ ''            Always answer in Korean concisely.'' @ [CHR 0x0A] @
      ''            If asked to read code, use the '' @ [CHR 0x60] @ ''read_local_file'' @
      [CHR 0x60] @ '' tool.'' @ [CHR 0x0A] @
      ''            If asked about recent events, use the '' @ [CHR 0x60] @ ''web_search'' @
      [CHR 0x60] @ '' tool.'' @ [CHR 0x0A] @
      ''            CRITICAL RULE: The user is listening via voice (TTS). DO N'' @
      ''OT use any markdown formatting like **, *, #, or bullet points. Output'' @
      '' plain spoken conversational text only.'' @ [CHR 0x0A] @ ''            ''"

text \<open>
  \<^verbatim>\<open>session_db\<close> maps a session identifier to a list object.  The objects live in \<open>heap\<close>
  and are named by their index there, so that two names of one list show as such;
  a list is made by adding it at the end of the heap, and no list is ever dropped.
\<close>

record 'w server_state = "'w io" +
  heap :: "message list list"
  session_db :: "string \<Rightarrow> nat option"

definition get_session_history :: "string \<Rightarrow> 'w server_state \<Rightarrow> nat \<times> 'w server_state" where
  "get_session_history sid st =
     (case session_db st sid of
        Some ref \<Rightarrow> (ref, st)
      | None \<Rightarrow>
          (let ref = length (heap st) in
           (ref, st\<lparr>heap := heap st @ [[SystemMessage server_system_prompt]],
                      session_db := (session_db st)(sid \<mapsto> ref)\<rparr>)))"

text \<open>\<^verbatim>\<open>chat_history.append(m)\<close> on the list \<open>ref\<close> names.\<close>

definition history_append :: "nat \<Rightarrow> message \<Rightarrow> 'w server_state \<Rightarrow> 'w server_state" where
  "history_append ref m st = st\<lparr>heap := (heap st)[ref := heap st ! ref @ [m]]\<rparr>"

record chat_request =
  message :: string
  session_id :: string

record chat_response =
  reply :: string
  reply_session_id :: string

datatype http_exception = HTTPException nat string

text \<open>
  One round of \<^verbatim>\<open>for tool_call in response.tool_calls\<close>: \<open>Some e\<close> when the exception \<open>e\<close>
  leaves the loop, which here every exception of a tool does.
\<close>

definition server_tool_call ::
  "'w env \<Rightarrow> nat \<Rightarrow> tool_call \<Rightarrow> 'w server_state \<Rightarrow> exn option \<times> 'w server_state" where
  "server_tool_call env ref tool_call st =
     (let tool_name = tc_name tool_call;
          st1 = emit (Print (''[Agent Action] Executing tool: '' @ tool_name)) st
      in case tools_map server_tool_names (lower tool_name) of
           None \<Rightarrow> (None, st1)
         | Some selected_tool \<Rightarrow>
             (case invoke_tool env selected_tool (tc_args tool_call) st1 of
                (Inl e, st2) \<Rightarrow> (Some e, st2)
              | (Inr tool_output, st2) \<Rightarrow>
                  (None, history_append ref
                           (ToolMessage (tc_id tool_call) tool_name tool_output) st2)))"

fun server_tool_loop ::
  "'w env \<Rightarrow> nat \<Rightarrow> tool_call list \<Rightarrow> 'w server_state \<Rightarrow> exn option \<times> 'w server_state" where
  "server_tool_loop env ref [] st = (None, st)"
| "server_tool_loop env ref (tool_call # rest) st =
     (case server_tool_call env ref tool_call st of
        (Some e, st1) \<Rightarrow> (Some e, st1)
      | (None, st1) \<Rightarrow> server_tool_loop env ref rest st1)"

text \<open>The handler of \<^verbatim>\<open>chat_endpoint\<close>: the exception is printed and a 500 is raised.\<close>

definition internal_error ::
  "exn \<Rightarrow> 'w server_state \<Rightarrow> (http_exception + chat_response) \<times> 'w server_state" where
  "internal_error e st =
     (Inl (HTTPException 500 ''Internal Server Error''),
      emit (Print (''[API Error] '' @ str_exn e)) st)"

text \<open>
  \<^verbatim>\<open>chat_endpoint\<close> after the first call of the model has returned \<open>response\<close>, on the
  history \<open>ref\<close> of the session \<open>sid\<close>.
\<close>

definition server_respond ::
  "'w env \<Rightarrow> string \<Rightarrow> nat \<Rightarrow> ai_message \<Rightarrow> 'w server_state \<Rightarrow>
   (http_exception + chat_response) \<times> 'w server_state" where
  "server_respond env sid ref response st =
     (let st1 = history_append ref (AIMessage response) st in
      if tool_calls response \<noteq> []
      then (case server_tool_loop env ref (tool_calls response) st1 of
              (Some e, st2) \<Rightarrow> internal_error e st2
            | (None, st2) \<Rightarrow>
                (case invoke_llm env (heap st2 ! ref) st2 of
                   (Inl e, st3) \<Rightarrow> internal_error e st3
                 | (Inr final_response, st3) \<Rightarrow>
                     (let st4 = history_append ref (AIMessage final_response) st3;
                          st5 = emit (Print (''[API Response] '' @
                                   take_chars 50 (content final_response) @ ''...'')) st4
                      in (Inr \<lparr>reply = content final_response, reply_session_id = sid\<rparr>, st5))))
      else (let st2 = emit (Print (''[API Response] '' @
                         take_chars 50 (content response) @ ''...'')) st1
            in (Inr \<lparr>reply = content response, reply_session_id = sid\<rparr>, st2)))"

definition chat_endpoint ::
  "'w env \<Rightarrow> chat_request \<Rightarrow> 'w server_state \<Rightarrow>
   (http_exception + chat_response) \<times> 'w server_state" where
  "chat_endpoint env req st =
     (let st0 = emit (Print ([CHR 0x0A] @ ''[API Request | Session: '' @ session_id req @
                        ''] Received: '' @ message req)) st
      in case get_session_history (session_id req) st0 of
           (ref, st1) \<Rightarrow>
             (let st2 = history_append ref (HumanMessage (message req)) st1 in
              case invoke_llm env (heap st2 ! ref) st2 of
                (Inl e, st3) \<Rightarrow> internal_error e st3
              | (Inr response, st3) \<Rightarrow> server_respond env (session_id req) ref response st3))"

text \<open>The state of the server when the module has been loaded: \<^verbatim>\<open>session_db = {}\<close>.\<close>

definition server_start :: "'w \<Rightarrow> 'w server_state" where
  "server_start w =
     \<lparr>world = w, trace = [Print ''[System] Jarvis Core Integrated API Server Booting...''],
      heap = [], session_db = Map.empty\<rparr>"

text \<open>
  The states the server can be in: every session names a list of the heap, and no two
  sessions name the same list.
\<close>

definition wf_sessions :: "'w server_state \<Rightarrow> bool" where
  "wf_sessions st =
     ((\<forall>a b ref. session_db st a = Some ref \<longrightarrow> session_db st b = Some ref \<longrightarrow> a = b) \<and>
      (\<forall>sid ref. session_db st sid = Some ref \<longrightarrow> ref < length (heap st)))"

text \<open>
  The states the server gets into: from the start, by looking a session up and by serving
  a request.
\<close>

inductive reachable :: "'w env \<Rightarrow> 'w server_state \<Rightarrow> bool" for env :: "'w env" where
  start: "reachable env (server_start w)"
| access: "reachable env st \<Longrightarrow> reachable env (snd (get_session_history sid st))"
| request: "reachable env st \<Longrightarrow> reachable env (snd (chat_endpoint env req st))"

text \<open>
  The history of a session as a request finds it: the list the session names, or the list
  \<^verbatim>\<open>get_session_history\<close> makes for a session that is new.
\<close>

definition session_history :: "'w server_state \<Rightarrow> string \<Rightarrow> message list" where
  "session_history st sid =
     (case session_db st sid of
        None \<Rightarrow> [SystemMessage server_system_prompt]
      | Some ref \<Rightarrow> heap st ! ref)"

subsection \<open>Notions the properties are stated with\<close>

text \<open>
  A request is registered when its lower-cased name is a key of the registry; what is
  called for it is the tool under that key, with the arguments of the request.
\<close>

definition registered_main :: "tool_call \<Rightarrow> bool" where
  "registered_main tc = (lower (tc_name tc) \<in> set main_tool_names)"

definition tool_call_of :: "tool_call \<Rightarrow> call" where
  "tool_call_of tc = ToolCall (lower (tc_name tc)) (tc_args tc)"

definition registered_server :: "tool_call \<Rightarrow> bool" where
  "registered_server tc = (lower (tc_name tc) \<in> set server_tool_names)"

fun is_system :: "message \<Rightarrow> bool" where
  "is_system (SystemMessage s) = True"
| "is_system (HumanMessage s) = False"
| "is_system (AIMessage a) = False"
| "is_system (ToolMessage i n c) = False"

fun is_tool_message :: "message \<Rightarrow> bool" where
  "is_tool_message (ToolMessage i n c) = True"
| "is_tool_message (SystemMessage s) = False"
| "is_tool_message (HumanMessage s) = False"
| "is_tool_message (AIMessage a) = False"

text \<open>
  \<open>appended ref ms st st'\<close>: from \<open>st\<close> to \<open>st'\<close> the messages \<open>ms\<close> have been appended to
  the list \<open>ref\<close>, no other list has changed and \<^verbatim>\<open>session_db\<close> has not changed.
\<close>

definition appended :: "nat \<Rightarrow> message list \<Rightarrow> 'w server_state \<Rightarrow> 'w server_state \<Rightarrow> bool" where
  "appended ref ms st st' =
     (session_db st' = session_db st \<and> heap st' = (heap st)[ref := heap st ! ref @ ms])"



text \<open>
  A state is seeded when the list of every session starts with the system message and
  holds no other system message.
\<close>

definition seeded :: "'w server_state \<Rightarrow> bool" where
  "seeded st =
     (\<forall>sid ref. session_db st sid = Some ref \<longrightarrow>
        (\<exists>rest. heap st ! ref = SystemMessage server_system_prompt # rest \<and>
                list_all (\<lambda>m. \<not> is_system m) rest))"

subsection \<open>Concrete inputs\<close>

text \<open>
  A home directory \<^verbatim>\<open>/home/u\<close> and a file system with one file, in a directory beside the
  project directory whose name starts with the project directory's name.
\<close>

definition home_u :: path where
  "home_u = [''home'', ''u'']"

definition secret_path :: path where
  "secret_path = [''home'', ''u'', ''Desktop'', ''portfolio_evil'', ''secret.txt'']"

definition fs_secret :: filesystem where
  "fs_secret = Map.empty(secret_path \<mapsto> Content ''top secret'')"

text \<open>
  Tool requests: a tool the registries do not have, a web search, a web search that lacks its
  argument, a memory search, and the request the interactive agent asks approval for.
\<close>

definition tc_weather :: tool_call where
  "tc_weather = \<lparr>tc_name = ''weather_api'', tc_args = [(''city'', ''Dallas'')], tc_id = ''call_1''\<rparr>"

definition tc_search :: tool_call where
  "tc_search = \<lparr>tc_name = ''web_search'', tc_args = [(''query'', ''news'')], tc_id = ''call_1''\<rparr>"

definition tc_bad_search :: tool_call where
  "tc_bad_search = \<lparr>tc_name = ''web_search'', tc_args = [], tc_id = ''call_1''\<rparr>"

definition tc_memory :: tool_call where
  "tc_memory = \<lparr>tc_name = ''search_memory'', tc_args = [(''query'', ''rules'')], tc_id = ''call_2''\<rparr>"


text \<open>
  A model that answers \<open>first\<close> to a history that ends with the user's message and
  \<open>final\<close> to any other; tools that raise on an empty argument list, as LangChain's
  validation does for a missing argument, and return a line of text otherwise.  The
  outside world has no state.
\<close>

definition scripted_llm ::
  "ai_message \<Rightarrow> ai_message \<Rightarrow> message list \<Rightarrow> unit \<Rightarrow> (exn + ai_message) \<times> unit" where
  "scripted_llm first final history w =
     (case rev history of
        HumanMessage s # earlier \<Rightarrow> (Inr first, w)
      | _ \<Rightarrow> (Inr final, w))"

definition demo_tools :: "string \<Rightarrow> args \<Rightarrow> unit \<Rightarrow> (exn + string) \<times> unit" where
  "demo_tools name arguments w =
     (if arguments = [] then (Inl (Exception ''1 validation error''), w)
      else (Inr (''result of '' @ name), w))"

definition demo_env :: "ai_message \<Rightarrow> ai_message \<Rightarrow> unit env" where
  "demo_env first final =
     \<lparr>llm = scripted_llm first final, tool_invoke = demo_tools, init_failure = None\<rparr>"

definition answer :: "string \<Rightarrow> ai_message" where
  "answer s = \<lparr>content = s, tool_calls = []\<rparr>"

definition request :: "tool_call list \<Rightarrow> ai_message" where
  "request tcs = \<lparr>content = '''', tool_calls = tcs\<rparr>"


definition demo_request :: chat_request where
  "demo_request = \<lparr>message = ''hello'', session_id = ''s1''\<rparr>"



definition other_request :: chat_request where
  "other_request = \<lparr>message = ''good morning'', session_id = ''s2''\<rparr>"

subsection \<open>The loop of the interactive agent\<close>

text \<open>
  \<^verbatim>\<open>while True\<close>.  Every round reads a line, and nothing puts lines back, so the loop
  ends when standard input does, at the latest.
\<close>

lemma stdin_emit [simp]: "stdin (emit e st) = stdin st"
  by (simp add: emit_def)

lemma stdin_append_message [simp]: "stdin (append_message m st) = stdin st"
  by (simp add: append_message_def)

lemma stdin_invoke_llm [simp]: "stdin (snd (invoke_llm env h st)) = stdin st"
  by (simp add: invoke_llm_def split: prod.splits)

lemma stdin_invoke_tool [simp]: "stdin (snd (invoke_tool env n a st)) = stdin st"
  by (simp add: invoke_tool_def split: prod.splits)

lemma stdin_read_input:
  "length (stdin (snd (read_input p st))) \<le> length (stdin st)"
  "read_input p st = (Inr line, st1) \<Longrightarrow> length (stdin st1) < length (stdin st)"
  by (auto simp: read_input_def split: list.splits)

lemma stdin_main_try_tool [simp]: "stdin (snd (main_try_tool env tc st)) = stdin st"
proof (cases "tools_map main_tool_names (lower (tc_name tc))")
  case None
  then show ?thesis by (simp add: main_try_tool_def)
next
  case (Some t)
  obtain r st1 where i: "invoke_tool env t (tc_args tc) st = (r, st1)"
    by (cases "invoke_tool env t (tc_args tc) st")
  with stdin_invoke_tool [of env t "tc_args tc" st] have "stdin st1 = stdin st" by simp
  with Some i show ?thesis by (cases r) (simp_all add: main_try_tool_def)
qed

lemma stdin_main_run_tool [simp]: "stdin (snd (main_run_tool env tc st)) = stdin st"
proof -
  obtain r st1 where t: "main_try_tool env tc st = (r, st1)"
    by (cases "main_try_tool env tc st")
  with stdin_main_try_tool [of env tc st] have "stdin st1 = stdin st" by simp
  with t show ?thesis
    by (simp add: main_run_tool_def split: sum.splits exn.splits)
qed

lemma stdin_main_tool_call:
  "length (stdin (snd (main_tool_call env tc st))) \<le> length (stdin st)"
proof -
  let ?st1 = "emit (Print (txt_running_tool_1 @ tc_name tc @ txt_running_tool_2)) st"
  have obs: "stdin (snd (case main_run_tool env tc s of
                 (out, s') \<Rightarrow> (None :: exn option, append_message (ToolMessage (tc_id tc) n out) s')))
             = stdin s" for s n
  proof -
    obtain out s' where r: "main_run_tool env tc s = (out, s')"
      by (cases "main_run_tool env tc s")
    with stdin_main_run_tool [of env tc s] have "stdin s' = stdin s" by simp
    with r show ?thesis by simp
  qed
  show ?thesis
  proof (cases "tc_name tc = ''delete_database_table''")
    case False
    then show ?thesis by (simp add: main_tool_call_def Let_def obs)
  next
    case True
    obtain r st2 where i: "read_input txt_approval_prompt ?st1 = (r, st2)"
      by (cases "read_input txt_approval_prompt ?st1")
    with stdin_read_input(1) [of txt_approval_prompt ?st1]
    have "length (stdin st2) \<le> length (stdin st)" by simp
    with True i show ?thesis
      by (cases r) (simp_all add: main_tool_call_def Let_def obs)
  qed
qed

lemma stdin_main_tool_loop:
  "length (stdin (snd (main_tool_loop env tcs st))) \<le> length (stdin st)"
proof (induction tcs arbitrary: st)
  case Nil
  then show ?case by simp
next
  case (Cons tc tcs)
  obtain r st1 where c: "main_tool_call env tc st = (r, st1)"
    by (cases "main_tool_call env tc st")
  with stdin_main_tool_call [of env tc st] have le: "length (stdin st1) \<le> length (stdin st)"
    by simp
  show ?case
  proof (cases r)
    case None
    with c le Cons.IH [of st1] show ?thesis by simp
  next
    case (Some e)
    with c le show ?thesis by simp
  qed
qed

lemma stdin_main_respond:
  "length (stdin (snd (main_respond env response st))) \<le> length (stdin st)"
proof (cases "tool_calls response = []")
  case True
  then show ?thesis by (simp add: main_respond_def Let_def)
next
  case False
  let ?st1 = "append_message (AIMessage response) st"
  obtain r st2 where l: "main_tool_loop env (tool_calls response) ?st1 = (r, st2)"
    by (cases "main_tool_loop env (tool_calls response) ?st1")
  with stdin_main_tool_loop [of env "tool_calls response" ?st1]
  have le: "length (stdin st2) \<le> length (stdin st)" by simp
  show ?thesis
  proof (cases r)
    case (Some e)
    with False l le show ?thesis by (simp add: main_respond_def Let_def)
  next
    case None
    obtain r3 st3 where i: "invoke_llm env (chat_history st2) st2 = (r3, st3)"
      by (cases "invoke_llm env (chat_history st2) st2")
    with stdin_invoke_llm [of env "chat_history st2" st2] have "stdin st3 = stdin st2" by simp
    with None False l le i show ?thesis
      by (cases r3) (simp_all add: main_respond_def Let_def)
  qed
qed

lemma stdin_main_try:
  "length (stdin (snd (main_try env st))) \<le> length (stdin st)"
proof -
  obtain r st1 where i: "invoke_llm env (chat_history st) st = (r, st1)"
    by (cases "invoke_llm env (chat_history st) st")
  with stdin_invoke_llm [of env "chat_history st" st] have eq: "stdin st1 = stdin st" by simp
  show ?thesis
  proof (cases r)
    case (Inl e)
    with i eq show ?thesis by (simp add: main_try_def)
  next
    case (Inr response)
    with i eq stdin_main_respond [of env response st1] show ?thesis
      by (simp add: main_try_def)
  qed
qed

lemma stdin_main_round:
  assumes "main_round env st = (None, st')"
  shows "length (stdin st') < length (stdin st)"
proof -
  obtain r st1 where i: "read_input txt_user_prompt st = (r, st1)"
    by (cases "read_input txt_user_prompt st")
  show ?thesis
  proof (cases r)
    case (Inl e)
    with i assms show ?thesis by (simp add: main_round_def)
  next
    case (Inr user_input)
    with i have lt: "length (stdin st1) < length (stdin st)"
      by (simp add: stdin_read_input(2))
    let ?st2 = "append_message (HumanMessage user_input) st1"
    obtain r3 st3 where t: "main_try env ?st2 = (r3, st3)"
      by (cases "main_try env ?st2")
    with stdin_main_try [of env ?st2] have "length (stdin st3) \<le> length (stdin st1)" by simp
    with lt i Inr t assms show ?thesis
      by (cases r3) (auto simp: main_round_def Let_def split: if_splits)
  qed
qed

function main_loop :: "'w env \<Rightarrow> 'w main_state \<Rightarrow> outcome \<times> 'w main_state" where
  "main_loop env st =
     (case main_round env st of
        (Some out, st1) \<Rightarrow> (out, st1)
      | (None, st1) \<Rightarrow> main_loop env st1)"
  by pat_completeness auto
termination
  by (relation "measure (\<lambda>(env, st). length (stdin st))") (auto simp: stdin_main_round)

declare main_loop.simps [simp del]

text \<open>
  \<^verbatim>\<open>main\<close>, run on the lines of standard input: \<^verbatim>\<open>initialize_jarvis\<close> (which leaves with
  \<^verbatim>\<open>sys.exit(1)\<close> when the engine cannot be set up), the history with the system
  message, and the loop.
\<close>

definition main :: "'w env \<Rightarrow> string list \<Rightarrow> 'w \<Rightarrow> outcome \<times> 'w main_state" where
  "main env lines w =
     (let st0 = \<lparr>world = w, trace = [Print txt_booting], chat_history = [], stdin = lines\<rparr> in
      case init_failure env of
        Some e \<Rightarrow> (Exited 1, emit (Print (txt_init_failed @ str_exn e)) st0)
      | None \<Rightarrow>
          main_loop env
            (emit (Print txt_session_started)
               (st0\<lparr>chat_history := [SystemMessage main_system_prompt]\<rparr>)))"

subsection \<open>Properties of the time tool\<close>







subsection \<open>The file-read tool of server.py\<close>

text \<open>
  What the check of \<^verbatim>\<open>read_local_file\<close> does give: a path whose text does not start with
  the text of the base directory gets the security violation, and nothing is opened.
\<close>

lemma read_local_file_text_guard:
  assumes "resolve (joinpath (home @ [''Desktop'', ''portfolio'']) file_path) = Inr target"
    and "\<not> prefix (str_path (home @ [''Desktop'', ''portfolio''])) (str_path target)"
  shows "read_local_file home fs file_path = (security_violation, [])"
  using assms by (simp add: read_local_file_def)

lemma read_local_file_opened:
  assumes "p \<in> set (snd (read_local_file home fs file_path))"
  shows "prefix (str_path (home @ [''Desktop'', ''portfolio''])) (str_path p)"
  using assms
  by (auto simp: read_local_file_def Let_def split: sum.splits if_splits option.splits fs_entry.splits)

text \<open>
  C1.  The path \<^verbatim>\<open>../portfolio_evil/secret.txt\<close> resolves to
  \<^verbatim>\<open>/home/u/Desktop/portfolio_evil/secret.txt\<close>, which is outside the base directory
  \<^verbatim>\<open>/home/u/Desktop/portfolio\<close>; its text starts with the text of the base directory, so the
  tool opens the file and returns its content instead of the security violation.
\<close>

theorem C1_sibling_directory_escape:
  "resolve (joinpath (home_u @ [''Desktop'', ''portfolio'']) ''../portfolio_evil/secret.txt'')
     = Inr secret_path \<and>
   \<not> inside (home_u @ [''Desktop'', ''portfolio'']) secret_path \<and>
   read_local_file home_u fs_secret ''../portfolio_evil/secret.txt''
     = (''[File Content of secret.txt]'' @ [CHR 0x0A] @ ''top secret'', [secret_path]) \<and>
   fst (read_local_file home_u fs_secret ''../portfolio_evil/secret.txt'') \<noteq> security_violation"
proof -
  have j: "joinpath (home_u @ [''Desktop'', ''portfolio'']) ''../portfolio_evil/secret.txt''
            = [''home'', ''u'', ''Desktop'', ''portfolio'', ''..'', ''portfolio_evil'', ''secret.txt'']"
    by (simp add: joinpath_def parse_parts_def home_u_def)
  have r: "resolve (joinpath (home_u @ [''Desktop'', ''portfolio'']) ''../portfolio_evil/secret.txt'')
            = Inr secret_path"
    unfolding j by (simp add: resolve_def secret_path_def)
  have o: "\<not> inside (home_u @ [''Desktop'', ''portfolio'']) secret_path"
    by (simp add: inside_def home_u_def secret_path_def)
  have p: "prefix (str_path (home_u @ [''Desktop'', ''portfolio''])) (str_path secret_path)"
    by (simp add: str_path_def home_u_def secret_path_def)
  have n: "path_name secret_path = ''secret.txt''"
    by (simp add: path_name_def secret_path_def)
  have f: "read_local_file home_u fs_secret ''../portfolio_evil/secret.txt''
            = (''[File Content of secret.txt]'' @ [CHR 0x0A] @ ''top secret'', [secret_path])"
    by (simp add: read_local_file_def r p n fs_secret_def)
  have "fst (read_local_file home_u fs_secret ''../portfolio_evil/secret.txt'') \<noteq> security_violation"
    unfolding f by (simp add: security_violation_def)
  with r o f show ?thesis by blast
qed

subsection \<open>What one step of the interactive agent does to the state\<close>

lemma calls_of_append [simp]: "calls_of (xs @ ys) = calls_of xs @ calls_of ys"
  by (induction xs rule: calls_of.induct) simp_all

lemma emit_io [simp]:
  "trace (emit e st) = trace st @ [e]"
  "world (emit e st) = world st"
  by (simp_all add: emit_def)

lemma emit_main [simp]: "chat_history (emit e st) = chat_history st"
  by (simp add: emit_def)

lemma append_message_simps [simp]:
  "chat_history (append_message m st) = chat_history st @ [m]"
  "trace (append_message m st) = trace st"
  "world (append_message m st) = world st"
  by (simp_all add: append_message_def)


lemma invoke_tool_main:
  assumes "invoke_tool env n a st = (r, st')"
  shows "chat_history st' = chat_history st" and "trace st' = trace st @ [ToolInvoke n a]"
    and "fst (tool_invoke env n a (world st)) = r"
  using assms by (auto simp: invoke_tool_def emit_def split: prod.splits)

lemma gated_not_registered:
  "tc_name tc = ''delete_database_table'' \<Longrightarrow> \<not> registered_main tc"
  by (simp add: registered_main_def main_tool_names_def lower_def lower_char_def
      ascii_uppercase_def ascii_lowercase_def)



lemma main_try_tool_registered:
  assumes "registered_main tc"
    and "invoke_tool env (lower (tc_name tc)) (tc_args tc) st = (r, st1)"
  shows "main_try_tool env tc st =
           (case r of Inl e \<Rightarrow> (Inl e, st1)
            | Inr out \<Rightarrow> (Inr out, emit (Print (txt_debug_preview @ take_chars 150 out @ ''...'')) st1))"
  using assms by (simp add: main_try_tool_def tools_map_def registered_main_def split: sum.splits)


text \<open>A request under a name other than the gated one: the tool runs and is observed.\<close>

lemma main_tool_call_ungated:
  assumes "tc_name tc \<noteq> ''delete_database_table''"
    and "main_run_tool env tc
           (emit (Print (txt_running_tool_1 @ tc_name tc @ txt_running_tool_2)) st) = (out, st1)"
  shows "main_tool_call env tc st =
           (None, append_message (ToolMessage (tc_id tc) (tc_name tc) out) st1)"
  using assms by (simp add: main_tool_call_def Let_def)





subsection \<open>What one step of the HTTP agent does to the state\<close>

lemma emit_server [simp]:
  "heap (emit e st) = heap st"
  "session_db (emit e st) = session_db st"
  by (simp_all add: emit_def)

lemma history_append_simps [simp]:
  "session_db (history_append ref m st) = session_db st"
  "trace (history_append ref m st) = trace st"
  "world (history_append ref m st) = world st"
  "heap (history_append ref m st) = (heap st)[ref := heap st ! ref @ [m]]"
  by (simp_all add: history_append_def)

lemma invoke_llm_server:
  assumes "invoke_llm env h st = (r, st')"
  shows "heap st' = heap st" and "session_db st' = session_db st"
    and "trace st' = trace st @ [ModelInvoke h]"
  using assms by (auto simp: invoke_llm_def emit_def split: prod.splits)

lemma invoke_tool_server:
  assumes "invoke_tool env n a st = (r, st')"
  shows "heap st' = heap st" and "session_db st' = session_db st"
    and "trace st' = trace st @ [ToolInvoke n a]"
  using assms by (auto simp: invoke_tool_def emit_def split: prod.splits)

lemma appended_refl: "heap st' = heap st \<Longrightarrow> session_db st' = session_db st \<Longrightarrow> appended ref [] st st'"
  by (simp add: appended_def)

lemma appended_trans:
  assumes "appended ref ms st st'" and "appended ref ms' st' st''"
  shows "appended ref (ms @ ms') st st''"
proof (cases "ref < length (heap st)")
  case True
  with assms show ?thesis by (simp add: appended_def)
next
  case False
  with assms show ?thesis by (simp add: appended_def list_update_beyond)
qed

lemma appended_history_append: "appended ref [m] st (history_append ref m st)"
  by (simp add: appended_def)

lemma appended_emit: "appended ref [] st (emit e st)"
  by (simp add: appended_def)

lemma appended_nth:
  assumes "appended ref ms st st'"
  shows "length (heap st') = length (heap st)"
    and "r \<noteq> ref \<Longrightarrow> heap st' ! r = heap st ! r"
    and "ref < length (heap st) \<Longrightarrow> heap st' ! ref = heap st ! ref @ ms"
  using assms by (simp_all add: appended_def)

lemma server_tool_call_unregistered:
  assumes "\<not> registered_server tc"
  shows "server_tool_call env ref tc st =
           (None, emit (Print (''[Agent Action] Executing tool: '' @ tc_name tc)) st)"
  using assms by (simp add: server_tool_call_def tools_map_def registered_server_def)

lemma server_tool_call_registered:
  assumes "registered_server tc"
    and "invoke_tool env (lower (tc_name tc)) (tc_args tc)
           (emit (Print (''[Agent Action] Executing tool: '' @ tc_name tc)) st) = (r, st1)"
  shows "server_tool_call env ref tc st =
           (case r of Inl e \<Rightarrow> (Some e, st1)
            | Inr out \<Rightarrow> (None, history_append ref (ToolMessage (tc_id tc) (tc_name tc) out) st1))"
  using assms
  by (simp add: server_tool_call_def tools_map_def registered_server_def Let_def split: sum.splits)

lemma server_tool_call_effect:
  assumes "server_tool_call env ref tc st = (r, st')"
  shows "calls_of (trace st') =
           calls_of (trace st) @ (if registered_server tc then [tool_call_of tc] else [])"
    and "\<exists>ms. appended ref ms st st' \<and> list_all is_tool_message ms \<and>
           (r \<noteq> None \<longrightarrow> ms = []) \<and> (\<not> registered_server tc \<longrightarrow> ms = []) \<and>
           (r = None \<longrightarrow> registered_server tc \<longrightarrow>
              (\<exists>out. ms = [ToolMessage (tc_id tc) (tc_name tc) out]))"
proof -
  let ?st1 = "emit (Print (''[Agent Action] Executing tool: '' @ tc_name tc)) st"
  have "calls_of (trace st') =
           calls_of (trace st) @ (if registered_server tc then [tool_call_of tc] else []) \<and>
        (\<exists>ms. appended ref ms st st' \<and> list_all is_tool_message ms \<and>
           (r \<noteq> None \<longrightarrow> ms = []) \<and> (\<not> registered_server tc \<longrightarrow> ms = []) \<and>
           (r = None \<longrightarrow> registered_server tc \<longrightarrow>
              (\<exists>out. ms = [ToolMessage (tc_id tc) (tc_name tc) out])))"
  proof (cases "registered_server tc")
    case False
    with assms have "r = None" "st' = ?st1"
      by (simp_all add: server_tool_call_unregistered)
    with False appended_emit [of ref st] show ?thesis by auto
  next
    case True
    obtain x st1 where i: "invoke_tool env (lower (tc_name tc)) (tc_args tc) ?st1 = (x, st1)"
      by (cases "invoke_tool env (lower (tc_name tc)) (tc_args tc) ?st1")
    note eff = invoke_tool_server [OF i]
    have a1: "appended ref [] st st1"
      using eff by (simp add: appended_def)
    have c1: "calls_of (trace st1) = calls_of (trace st) @ [tool_call_of tc]"
      using eff(3) by (simp add: tool_call_of_def)
    show ?thesis
    proof (cases x)
      case (Inl e)
      with server_tool_call_registered [OF True i, of ref] assms
      have "r = Some e" "st' = st1" by simp_all
      with True a1 c1 show ?thesis by auto
    next
      case (Inr out)
      with server_tool_call_registered [OF True i, of ref] assms
      have r: "r = None" and st': "st' = history_append ref (ToolMessage (tc_id tc) (tc_name tc) out) st1"
        by simp_all
      from appended_trans [OF a1 appended_history_append [of ref _ st1]] st'
      have "appended ref [ToolMessage (tc_id tc) (tc_name tc) out] st st'" by simp
      with r st' True c1 show ?thesis by auto
    qed
  qed
  then show "calls_of (trace st') =
           calls_of (trace st) @ (if registered_server tc then [tool_call_of tc] else [])"
    and "\<exists>ms. appended ref ms st st' \<and> list_all is_tool_message ms \<and>
           (r \<noteq> None \<longrightarrow> ms = []) \<and> (\<not> registered_server tc \<longrightarrow> ms = []) \<and>
           (r = None \<longrightarrow> registered_server tc \<longrightarrow>
              (\<exists>out. ms = [ToolMessage (tc_id tc) (tc_name tc) out]))"
    by blast+
qed

text \<open>
  The tool loop of the server.  Whatever way it ends, only tool messages have been
  appended, to the list of the session; when it ends without an exception, the registered
  requests have been invoked in the order of the requests and each has got its tool
  message, and the other requests have got none.
\<close>

lemma server_tool_loop_appended:
  "\<exists>ms. appended ref ms st (snd (server_tool_loop env ref tcs st)) \<and> list_all is_tool_message ms"
proof (induction tcs arbitrary: st)
  case Nil
  show ?case using appended_refl [of st st ref] by auto
next
  case (Cons tc tcs)
  obtain r st1 where c: "server_tool_call env ref tc st = (r, st1)"
    by (cases "server_tool_call env ref tc st")
  from server_tool_call_effect(2) [OF c] obtain ms where
    ms: "appended ref ms st st1" "list_all is_tool_message ms" by blast
  show ?case
  proof (cases r)
    case (Some e)
    with c ms show ?thesis by auto
  next
    case None
    from Cons.IH [of st1] obtain ms' where
      ms': "appended ref ms' st1 (snd (server_tool_loop env ref tcs st1))"
        "list_all is_tool_message ms'" by blast
    from appended_trans [OF ms(1) ms'(1)] ms(2) ms'(2) None c
    have "appended ref (ms @ ms') st (snd (server_tool_loop env ref (tc # tcs) st)) \<and>
          list_all is_tool_message (ms @ ms')" by simp
    then show ?thesis by blast
  qed
qed


lemma internal_error_simps [simp]:
  "fst (internal_error e st) = Inl (HTTPException 500 ''Internal Server Error'')"
  "heap (snd (internal_error e st)) = heap st"
  "session_db (snd (internal_error e st)) = session_db st"
  "trace (snd (internal_error e st)) = trace st @ [Print (''[API Error] '' @ str_exn e)]"
  by (simp_all add: internal_error_def)

lemma appended_internal_error: "appended ref [] st (snd (internal_error e st))"
  by (simp add: appended_def)

text \<open>
  \<^verbatim>\<open>chat_endpoint\<close> from the first answer of the model on: the answer is appended, then
  tool messages and at most one more answer of the model; a failure is the 500.
\<close>

lemma server_respond_appended:
  assumes "server_respond env sid ref response st = (r, st')"
  shows "\<exists>ms. appended ref (AIMessage response # ms) st st' \<and> list_all (\<lambda>m. \<not> is_system m) ms"
    and "\<forall>h. r = Inl h \<longrightarrow> h = HTTPException 500 ''Internal Server Error''"
proof -
  let ?st1 = "history_append ref (AIMessage response) st"
  have a1: "appended ref [AIMessage response] st ?st1"
    by (rule appended_history_append)
  have tool_not_system: "list_all (\<lambda>m. \<not> is_system m) ms" if "list_all is_tool_message ms" for ms
    using that by (induction ms) (auto elim: is_tool_message.elims)
  have "(\<exists>ms. appended ref (AIMessage response # ms) st st' \<and> list_all (\<lambda>m. \<not> is_system m) ms) \<and>
        (\<forall>h. r = Inl h \<longrightarrow> h = HTTPException 500 ''Internal Server Error'')"
  proof (cases "tool_calls response = []")
    case True
    with assms have "st' = emit (Print (''[API Response] '' @ take_chars 50 (content response) @ ''...'')) ?st1"
      and "r = Inr \<lparr>reply = content response, reply_session_id = sid\<rparr>"
      by (auto simp: server_respond_def Let_def)
    with appended_trans [OF a1 appended_emit, of "Print (''[API Response] '' @ take_chars 50 (content response) @ ''...'')"]
    have "appended ref (AIMessage response # []) st st' \<and> list_all (\<lambda>m. \<not> is_system m) [] \<and>
          (\<forall>h. r = Inl h \<longrightarrow> h = HTTPException 500 ''Internal Server Error'')" by simp
    then show ?thesis by blast
  next
    case False
    obtain x st2 where l: "server_tool_loop env ref (tool_calls response) ?st1 = (x, st2)"
      by (cases "server_tool_loop env ref (tool_calls response) ?st1")
    from server_tool_loop_appended [of ref ?st1 env "tool_calls response"] l
    obtain ms where ms: "appended ref ms ?st1 st2" "list_all is_tool_message ms" by auto
    note a2 = appended_trans [OF a1 ms(1)]
    show ?thesis
    proof (cases x)
      case (Some e)
      with False l assms have "r = fst (internal_error e st2)" "st' = snd (internal_error e st2)"
        by (auto simp: server_respond_def Let_def)
      with appended_trans [OF a2 appended_internal_error, of e] tool_not_system [OF ms(2)]
      have "appended ref (AIMessage response # ms) st st' \<and> list_all (\<lambda>m. \<not> is_system m) ms \<and>
          (\<forall>h. r = Inl h \<longrightarrow> h = HTTPException 500 ''Internal Server Error'')" by simp
      then show ?thesis by blast
    next
      case None
      obtain y st3 where i: "invoke_llm env (heap st2 ! ref) st2 = (y, st3)"
        by (cases "invoke_llm env (heap st2 ! ref) st2")
      from invoke_llm_server [OF i] have a3: "appended ref [] st2 st3"
        by (simp add: appended_def)
      note a4 = appended_trans [OF a2 a3]
      show ?thesis
      proof (cases y)
        case (Inl e)
        with None False l i assms
        have "r = fst (internal_error e st3)" "st' = snd (internal_error e st3)"
          by (auto simp: server_respond_def Let_def)
        with appended_trans [OF a4 appended_internal_error, of e] tool_not_system [OF ms(2)]
        have "appended ref (AIMessage response # ms) st st' \<and> list_all (\<lambda>m. \<not> is_system m) ms \<and>
          (\<forall>h. r = Inl h \<longrightarrow> h = HTTPException 500 ''Internal Server Error'')" by simp
        then show ?thesis by blast
      next
        case (Inr final)
        with None False l i assms
        have r: "r = Inr \<lparr>reply = content final, reply_session_id = sid\<rparr>"
          and st': "st' = emit (Print (''[API Response] '' @ take_chars 50 (content final) @ ''...''))
                     (history_append ref (AIMessage final) st3)"
          by (auto simp: server_respond_def Let_def)
        from appended_trans [OF appended_trans [OF a4 appended_history_append [of ref "AIMessage final" st3]]
            appended_emit] st'
        have "appended ref (AIMessage response # ms @ [AIMessage final]) st st'" by simp
        moreover have "list_all (\<lambda>m. \<not> is_system m) (ms @ [AIMessage final])"
          using tool_not_system [OF ms(2)] by simp
        ultimately show ?thesis using r by blast
      qed
    qed
  qed
  then show "\<exists>ms. appended ref (AIMessage response # ms) st st' \<and> list_all (\<lambda>m. \<not> is_system m) ms"
    and "\<forall>h. r = Inl h \<longrightarrow> h = HTTPException 500 ''Internal Server Error''"
    by blast+
qed

text \<open>
  The whole of \<^verbatim>\<open>chat_endpoint\<close>: the session's list is looked up or made, and the
  message of the request and then messages that are not system messages are appended to
  it.
\<close>

lemma chat_endpoint_appended:
  assumes "chat_endpoint env req st = (r, st')"
  shows "\<exists>ref st1 ms.
           get_session_history (session_id req)
             (emit (Print ([CHR 0x0A] @ ''[API Request | Session: '' @ session_id req @
                        ''] Received: '' @ message req)) st) = (ref, st1) \<and>
           appended ref (HumanMessage (message req) # ms) st1 st' \<and>
           list_all (\<lambda>m. \<not> is_system m) ms \<and>
           (\<forall>h. r = Inl h \<longrightarrow> h = HTTPException 500 ''Internal Server Error'')"
proof -
  let ?st0 = "emit (Print ([CHR 0x0A] @ ''[API Request | Session: '' @ session_id req @
                        ''] Received: '' @ message req)) st"
  obtain ref st1 where g: "get_session_history (session_id req) ?st0 = (ref, st1)"
    by (cases "get_session_history (session_id req) ?st0")
  let ?st2 = "history_append ref (HumanMessage (message req)) st1"
  have a2: "appended ref [HumanMessage (message req)] st1 ?st2"
    by (rule appended_history_append)
  obtain y st3 where i: "invoke_llm env (heap ?st2 ! ref) ?st2 = (y, st3)"
    by (cases "invoke_llm env (heap ?st2 ! ref) ?st2")
  from invoke_llm_server [OF i] have a3: "appended ref [] ?st2 st3"
    by (simp add: appended_def)
  note a4 = appended_trans [OF a2 a3]
  show ?thesis
  proof (cases y)
    case (Inl e)
    with g i assms have "r = fst (internal_error e st3)" "st' = snd (internal_error e st3)"
      by (auto simp: chat_endpoint_def Let_def)
    with appended_trans [OF a4 appended_internal_error, of e]
    have "appended ref (HumanMessage (message req) # []) st1 st' \<and>
          list_all (\<lambda>m. \<not> is_system m) [] \<and>
          (\<forall>h. r = Inl h \<longrightarrow> h = HTTPException 500 ''Internal Server Error'')" by simp
    with g show ?thesis by blast
  next
    case (Inr response)
    with g i assms have "server_respond env (session_id req) ref response st3 = (r, st')"
      by (auto simp: chat_endpoint_def Let_def)
    from server_respond_appended [OF this] obtain ms where
      "appended ref (AIMessage response # ms) st3 st'" "list_all (\<lambda>m. \<not> is_system m) ms"
      "\<forall>h. r = Inl h \<longrightarrow> h = HTTPException 500 ''Internal Server Error''" by blast
    with appended_trans [OF a4, of "AIMessage response # ms" st'] g
    have "appended ref (HumanMessage (message req) # AIMessage response # ms) st1 st' \<and>
          list_all (\<lambda>m. \<not> is_system m) (AIMessage response # ms) \<and>
          (\<forall>h. r = Inl h \<longrightarrow> h = HTTPException 500 ''Internal Server Error'')" by simp
    with g show ?thesis by blast
  qed
qed

subsection \<open>Requests for tools that are not registered: the interactive agent\<close>






lemma lower_weather: "lower ''weather_api'' = ''weather_api''"
  by (simp add: lower_def lower_char_def ascii_uppercase_def ascii_lowercase_def)





subsection \<open>Tools that raise, and answers that are empty\<close>

text \<open>
  The interactive agent catches what a tool raises: the request gets a tool message whose
  text holds the text of the exception, and the loop goes on with the next request.
\<close>

lemma main_tool_failure_observed:
  assumes "registered_main tc"
    and "tool_invoke env (lower (tc_name tc)) (tc_args tc) (world st) = (Inl e, w)"
  shows "\<exists>out st'. main_tool_call env tc st = (None, st') \<and>
           chat_history st' = chat_history st @ [ToolMessage (tc_id tc) (tc_name tc) out] \<and>
           sublist (str_exn e) out \<and>
           main_tool_loop env (tc # rest) st = main_tool_loop env rest st'"
proof -
  let ?st1 = "emit (Print (txt_running_tool_1 @ tc_name tc @ txt_running_tool_2)) st"
  from assms(1) gated_not_registered have ungated: "tc_name tc \<noteq> ''delete_database_table''"
    by blast
  obtain st2 where i: "invoke_tool env (lower (tc_name tc)) (tc_args tc) ?st1 = (Inl e, st2)"
    using assms(2) by (simp add: invoke_tool_def)
  from invoke_tool_main(1) [OF i] have h2: "chat_history st2 = chat_history st" by simp
  note t = main_try_tool_registered [OF assms(1) i]
  let ?out = "case e of KeyError k \<Rightarrow> ''[System Fallback] '' @ str_exn e @ txt_use_only
                      | Exception s \<Rightarrow> txt_tool_failed @ str_exn e"
  let ?st3 = "case e of KeyError k \<Rightarrow> emit (Print (txt_wrong_tool @ tc_name tc)) st2
                      | Exception s \<Rightarrow> emit (Print (txt_tool_error @ str_exn e)) st2"
  have run: "main_run_tool env tc ?st1 = (?out, ?st3)"
    using t by (cases e) (simp_all add: main_run_tool_def)
  have k: "sublist (str_exn e) (''[System Fallback] '' @ str_exn e @ txt_use_only)"
    by (rule sublist_appendI)
  have x: "sublist (str_exn e) (txt_tool_failed @ str_exn e)"
    by (rule sublist_append_leftI)
  have "chat_history ?st3 = chat_history st \<and> sublist (str_exn e) ?out"
    using h2 k x by (cases e) (simp_all del: str_exn.simps)
  with main_tool_call_ungated [OF ungated run] show ?thesis by simp
qed

text \<open>
  The interactive agent replaces an empty second answer: what it prints is the fixed
  text, which is not empty.
\<close>

lemma main_empty_answer_guard:
  assumes "tool_calls response \<noteq> []"
    and "main_tool_loop env (tool_calls response) (append_message (AIMessage response) st) = (None, st2)"
    and "invoke_llm env (chat_history st2) st2 = (Inr final, st3)"
    and "strip_is_empty (content final)"
  shows "main_respond env response st =
           (None, emit (Print txt_empty_answer) (append_message (AIMessage final) st3))"
    and "txt_empty_answer \<noteq> []"
  using assms by (simp_all add: main_respond_def Let_def txt_empty_answer_def)

lemma lower_web_search: "lower ''web_search'' = ''web_search''"
  by (simp add: lower_def lower_char_def ascii_uppercase_def ascii_lowercase_def)

lemma lower_search_memory: "lower ''search_memory'' = ''search_memory''"
  by (simp add: lower_def lower_char_def ascii_uppercase_def ascii_lowercase_def)

lemmas server_run =
  chat_endpoint_def server_respond_def server_tool_call_def get_session_history_def
  history_append_def invoke_llm_def invoke_tool_def internal_error_def emit_def
  server_start_def tools_map_def server_tool_names_def demo_env_def scripted_llm_def
  demo_tools_def demo_request_def answer_def request_def Let_def
  lower_web_search lower_search_memory lower_weather

text \<open>
  C4.  The HTTP agent has no handler around the call of a tool.  The model asks for a web
  search without its argument and then for a memory search; the first tool raises, the
  request ends with the 500, the history has no tool message, the memory search is never
  called and the model is not called a second time.
\<close>

theorem C4_server_tool_failure_aborts:
  "fst (chat_endpoint (demo_env (request [tc_bad_search, tc_memory]) (answer ''done''))
          demo_request (server_start ()))
     = Inl (HTTPException 500 ''Internal Server Error'') \<and>
   heap (snd (chat_endpoint (demo_env (request [tc_bad_search, tc_memory]) (answer ''done''))
          demo_request (server_start ())))
     = [[SystemMessage server_system_prompt, HumanMessage ''hello'',
         AIMessage (request [tc_bad_search, tc_memory])]] \<and>
   calls_of (trace (snd (chat_endpoint (demo_env (request [tc_bad_search, tc_memory]) (answer ''done''))
          demo_request (server_start ()))))
     = [ModelCall, ToolCall ''web_search'' []]"
  by (simp add: server_run tc_bad_search_def tc_memory_def)

text \<open>
  C3.  The HTTP agent has no guard on the second answer.  The model asks for a web search
  and then answers with the empty text; the reply of the request is the empty text.
\<close>

theorem C3_server_empty_reply:
  "strip_is_empty (content (answer '''')) \<and>
   fst (chat_endpoint (demo_env (request [tc_search]) (answer '''')) demo_request (server_start ()))
     = Inr \<lparr>reply = '''', reply_session_id = ''s1''\<rparr>"
  by (simp add: server_run tc_search_def)

subsection \<open>Requests for tools that are not registered: the HTTP agent\<close>

text \<open>
  C6.  A request whose lower-cased name is not in the registry of server.py does nothing
  but print the line that names it: no list and no session changes, no tool and no model is
  called, no exception is raised; the loop goes on with the next request; and when it is
  the only request, the model is called a second time on the history that holds the first
  answer and no tool message, and its answer is the reply.
\<close>

theorem C6_server_skips_unregistered:
  assumes "lower (tc_name tc) \<notin> set server_tool_names"
  shows "server_tool_call env ref tc st =
           (None, emit (Print (''[Agent Action] Executing tool: '' @ tc_name tc)) st) \<and>
         heap (snd (server_tool_call env ref tc st)) = heap st \<and>
         session_db (snd (server_tool_call env ref tc st)) = session_db st \<and>
         world (snd (server_tool_call env ref tc st)) = world st \<and>
         calls_of (trace (snd (server_tool_call env ref tc st))) = calls_of (trace st) \<and>
         server_tool_loop env ref (tc # rest) st =
           server_tool_loop env ref rest
             (emit (Print (''[Agent Action] Executing tool: '' @ tc_name tc)) st) \<and>
         (tool_calls response = [tc] \<longrightarrow>
            server_respond env sid ref response st =
              (let st1 = emit (Print (''[Agent Action] Executing tool: '' @ tc_name tc))
                           (history_append ref (AIMessage response) st)
               in case invoke_llm env (heap st1 ! ref) st1 of
                    (Inl e, st2) \<Rightarrow> internal_error e st2
                  | (Inr final_response, st2) \<Rightarrow>
                      (let st4 = history_append ref (AIMessage final_response) st2;
                           st5 = emit (Print (''[API Response] '' @
                                   take_chars 50 (content final_response) @ ''...'')) st4
                       in (Inr \<lparr>reply = content final_response, reply_session_id = sid\<rparr>, st5))))"
proof -
  from assms have unreg: "\<not> registered_server tc"
    by (simp add: registered_server_def)
  note step = server_tool_call_unregistered [OF unreg, of env ref st]
  have loop: "server_tool_loop env ref (tc # rest) st =
           server_tool_loop env ref rest
             (emit (Print (''[Agent Action] Executing tool: '' @ tc_name tc)) st)"
    by (simp add: step)
  have single: "server_tool_loop env ref [tc] s =
           (None, emit (Print (''[Agent Action] Executing tool: '' @ tc_name tc)) s)" for s
    by (simp add: server_tool_call_unregistered [OF unreg])
  have resp: "tool_calls response = [tc] \<longrightarrow>
            server_respond env sid ref response st =
              (let st1 = emit (Print (''[Agent Action] Executing tool: '' @ tc_name tc))
                           (history_append ref (AIMessage response) st)
               in case invoke_llm env (heap st1 ! ref) st1 of
                    (Inl e, st2) \<Rightarrow> internal_error e st2
                  | (Inr final_response, st2) \<Rightarrow>
                      (let st4 = history_append ref (AIMessage final_response) st2;
                           st5 = emit (Print (''[API Response] '' @
                                   take_chars 50 (content final_response) @ ''...'')) st4
                       in (Inr \<lparr>reply = content final_response, reply_session_id = sid\<rparr>, st5)))"
    by (simp add: server_respond_def server_tool_call_unregistered [OF unreg])
  from step loop resp show ?thesis by simp
qed

theorem C6_server_skips_unregistered_witness:
  "server_tool_call (demo_env (request [tc_weather]) (answer ''done'')) 0 tc_weather
       (server_start ()) =
     (None, emit (Print (''[Agent Action] Executing tool: weather_api'')) (server_start ())) \<and>
   fst (server_respond (demo_env (request [tc_weather]) (answer ''done'')) ''s1'' 0
          (request [tc_weather]) (snd (get_session_history ''s1'' (server_start ())))) =
     Inr \<lparr>reply = ''done'', reply_session_id = ''s1''\<rparr> \<and>
   heap (snd (server_respond (demo_env (request [tc_weather]) (answer ''done'')) ''s1'' 0
          (request [tc_weather]) (snd (get_session_history ''s1'' (server_start ()))))) =
     [[SystemMessage server_system_prompt, AIMessage (request [tc_weather]),
       AIMessage (answer ''done'')]]"
proof -
  let ?env = "demo_env (request [tc_weather]) (answer ''done'')"
  let ?st = "snd (get_session_history ''s1'' (server_start ()))"
  have h: "lower (tc_name tc_weather) \<notin> set server_tool_names"
    by (simp add: tc_weather_def lower_weather server_tool_names_def)
  have t: "tool_calls (request [tc_weather]) = [tc_weather]"
    by (simp add: request_def)
  note inst = C6_server_skips_unregistered [OF h, of ?env 0]
  from inst [where st = "server_start ()"]
  have a: "server_tool_call ?env 0 tc_weather (server_start ()) =
     (None, emit (Print (''[Agent Action] Executing tool: weather_api'')) (server_start ()))"
    by (simp add: tc_weather_def)
  from inst [where st = ?st and response = "request [tc_weather]" and sid = "''s1''"] t
  have r: "server_respond ?env ''s1'' 0 (request [tc_weather]) ?st =
              (let st1 = emit (Print (''[Agent Action] Executing tool: '' @ tc_name tc_weather))
                           (history_append 0 (AIMessage (request [tc_weather])) ?st)
               in case invoke_llm ?env (heap st1 ! 0) st1 of
                    (Inl e, st2) \<Rightarrow> internal_error e st2
                  | (Inr final_response, st2) \<Rightarrow>
                      (let st4 = history_append 0 (AIMessage final_response) st2;
                           st5 = emit (Print (''[API Response] '' @
                                   take_chars 50 (content final_response) @ ''...'')) st4
                       in (Inr \<lparr>reply = content final_response, reply_session_id = ''s1''\<rparr>, st5)))"
    by blast
  have b: "fst (server_respond ?env ''s1'' 0 (request [tc_weather]) ?st) =
     Inr \<lparr>reply = ''done'', reply_session_id = ''s1''\<rparr>"
    unfolding r
    by (simp add: get_session_history_def history_append_def invoke_llm_def emit_def
        server_start_def demo_env_def scripted_llm_def answer_def request_def Let_def)
  have c: "heap (snd (server_respond ?env ''s1'' 0 (request [tc_weather]) ?st)) =
     [[SystemMessage server_system_prompt, AIMessage (request [tc_weather]),
       AIMessage (answer ''done'')]]"
    unfolding r
    by (simp add: get_session_history_def history_append_def invoke_llm_def emit_def
        server_start_def demo_env_def scripted_llm_def answer_def request_def Let_def)
  from a b c show ?thesis by blast
qed

subsection \<open>The calls of one pass\<close>








subsection \<open>The session store\<close>

lemma wf_start: "wf_sessions (server_start w)"
  by (simp add: wf_sessions_def server_start_def)

lemma wf_emit [simp]: "wf_sessions (emit e st) = wf_sessions st"
  by (simp add: wf_sessions_def)

lemma get_session_history_old:
  assumes "session_db st sid = Some ref"
  shows "get_session_history sid st = (ref, st)"
  using assms by (simp add: get_session_history_def)

lemma get_session_history_new:
  assumes "session_db st sid = None"
  shows "get_session_history sid st =
           (length (heap st),
            st\<lparr>heap := heap st @ [[SystemMessage server_system_prompt]],
               session_db := (session_db st)(sid \<mapsto> length (heap st))\<rparr>)"
  using assms by (simp add: get_session_history_def Let_def)

text \<open>
  What \<^verbatim>\<open>get_session_history\<close> gives: the session names the list returned, the list
  holds the session's history, and no other session and no list that was there before has
  changed.
\<close>

lemma get_session_history_effect:
  assumes "wf_sessions st" and "get_session_history sid st = (ref, st1)"
  shows "wf_sessions st1" and "session_db st1 sid = Some ref" and "ref < length (heap st1)"
    and "heap st1 ! ref = session_history st sid"
    and "sid' \<noteq> sid \<Longrightarrow> session_db st1 sid' = session_db st sid'"
    and "r < length (heap st) \<Longrightarrow> heap st1 ! r = heap st ! r"
    and "dom (session_db st1) = insert sid (dom (session_db st))"
proof -
  have all: "wf_sessions st1 \<and> session_db st1 sid = Some ref \<and> ref < length (heap st1) \<and>
        heap st1 ! ref = session_history st sid \<and>
        (sid' \<noteq> sid \<longrightarrow> session_db st1 sid' = session_db st sid') \<and>
        (r < length (heap st) \<longrightarrow> heap st1 ! r = heap st ! r) \<and>
        dom (session_db st1) = insert sid (dom (session_db st))"
  proof (cases "session_db st sid")
    case (Some ref')
    with assms(2) have "ref = ref'" "st1 = st"
      by (simp_all add: get_session_history_old)
    with Some assms(1) show ?thesis
      by (auto simp: session_history_def wf_sessions_def)
  next
    case None
    with assms(2) have ref: "ref = length (heap st)"
      and st1: "st1 = st\<lparr>heap := heap st @ [[SystemMessage server_system_prompt]],
                         session_db := (session_db st)(sid \<mapsto> length (heap st))\<rparr>"
      by (auto simp: get_session_history_new)
    have wf: "wf_sessions st1"
      unfolding wf_sessions_def
    proof (intro conjI allI impI)
      fix a b x
      assume a: "session_db st1 a = Some x" and b: "session_db st1 b = Some x"
      show "a = b"
      proof (cases "a = sid")
        case True
        with a st1 have x: "x = length (heap st)" by simp
        show ?thesis
        proof (rule ccontr)
          assume "a \<noteq> b"
          with True b st1 have "session_db st b = Some x" by simp
          with assms(1) x show False by (auto simp: wf_sessions_def)
        qed
      next
        case False
        with a st1 have sa: "session_db st a = Some x" by simp
        with assms(1) have lt: "x < length (heap st)" by (auto simp: wf_sessions_def)
        have "b \<noteq> sid"
        proof
          assume "b = sid"
          with b st1 have "x = length (heap st)" by simp
          with lt show False by simp
        qed
        with b st1 have "session_db st b = Some x" by simp
        with sa assms(1) show ?thesis unfolding wf_sessions_def by blast
      qed
    next
      fix s x
      assume "session_db st1 s = Some x"
      with st1 have "x = length (heap st) \<or> session_db st s = Some x"
        by (cases "s = sid") simp_all
      then have "x \<le> length (heap st)"
      proof
        assume "x = length (heap st)"
        then show ?thesis by simp
      next
        assume "session_db st s = Some x"
        with assms(1) have "x < length (heap st)" unfolding wf_sessions_def by blast
        then show ?thesis by simp
      qed
      with st1 show "x < length (heap st1)" by simp
    qed
    from None ref st1 wf show ?thesis
      by (auto simp: session_history_def nth_append)
  qed
  from all show "wf_sessions st1" and "session_db st1 sid = Some ref" and "ref < length (heap st1)"
    and "heap st1 ! ref = session_history st sid"
    and "sid' \<noteq> sid \<Longrightarrow> session_db st1 sid' = session_db st sid'"
    and "r < length (heap st) \<Longrightarrow> heap st1 ! r = heap st ! r"
    and "dom (session_db st1) = insert sid (dom (session_db st))"
    by blast+
qed

lemma wf_appended:
  assumes "wf_sessions st" and "appended ref ms st st'"
  shows "wf_sessions st'"
  using assms by (simp add: wf_sessions_def appended_def)

text \<open>
  A request, from a state of the server: the session of the request names a list that
  holds the history the request found, the message of the request, and then messages that
  are not system messages; every other session names what it named, and every list that
  was there and is not the session's is as it was.
\<close>

lemma chat_endpoint_effect:
  assumes "wf_sessions st" and "chat_endpoint env req st = (r, st')"
  shows "\<exists>ref ms. session_db st' (session_id req) = Some ref \<and> ref < length (heap st') \<and>
           heap st' ! ref = session_history st (session_id req) @ HumanMessage (message req) # ms \<and>
           list_all (\<lambda>m. \<not> is_system m) ms \<and>
           (\<forall>ref'. ref' \<noteq> ref \<longrightarrow> ref' < length (heap st) \<longrightarrow> heap st' ! ref' = heap st ! ref')"
    and "wf_sessions st'"
    and "sid' \<noteq> session_id req \<Longrightarrow> session_db st' sid' = session_db st sid'"
    and "dom (session_db st') = insert (session_id req) (dom (session_db st))"
    and "\<forall>h. r = Inl h \<longrightarrow> h = HTTPException 500 ''Internal Server Error''"
proof -
  let ?st0 = "emit (Print ([CHR 0x0A] @ ''[API Request | Session: '' @ session_id req @
                        ''] Received: '' @ message req)) st"
  from chat_endpoint_appended [OF assms(2)] obtain ref st1 ms where
    g: "get_session_history (session_id req) ?st0 = (ref, st1)"
    and a: "appended ref (HumanMessage (message req) # ms) st1 st'"
    and ms: "list_all (\<lambda>m. \<not> is_system m) ms"
    and err: "\<forall>h. r = Inl h \<longrightarrow> h = HTTPException 500 ''Internal Server Error''"
    by blast
  from assms(1) have wf0: "wf_sessions ?st0" by simp
  note e = get_session_history_effect [OF wf0 g]
  have sh: "session_history ?st0 (session_id req) = session_history st (session_id req)"
    by (cases "session_db st (session_id req)") (simp_all add: session_history_def)
  from a have db: "session_db st' = session_db st1" by (simp add: appended_def)
  from wf_appended [OF e(1) a] show "wf_sessions st'" .
  from err show "\<forall>h. r = Inl h \<longrightarrow> h = HTTPException 500 ''Internal Server Error''" .
  from db e(5) [of sid'] show "sid' \<noteq> session_id req \<Longrightarrow> session_db st' sid' = session_db st sid'"
    by simp
  from db e(7) show "dom (session_db st') = insert (session_id req) (dom (session_db st))"
    by simp
  have 1: "session_db st' (session_id req) = Some ref" using db e(2) by simp
  have 2: "ref < length (heap st')" using appended_nth(1) [OF a] e(3) by simp
  have 3: "heap st' ! ref = session_history st (session_id req) @ HumanMessage (message req) # ms"
    using appended_nth(3) [OF a e(3)] e(4) sh by simp
  have 4: "\<forall>ref'. ref' \<noteq> ref \<longrightarrow> ref' < length (heap st) \<longrightarrow> heap st' ! ref' = heap st ! ref'"
  proof (intro allI impI)
    fix ref' assume "ref' \<noteq> ref" and "ref' < length (heap st)"
    with appended_nth(2) [OF a, of ref'] e(6) [of ref'] show "heap st' ! ref' = heap st ! ref'"
      by simp
  qed
  from 1 2 3 4 ms
  show "\<exists>ref ms. session_db st' (session_id req) = Some ref \<and> ref < length (heap st') \<and>
           heap st' ! ref = session_history st (session_id req) @ HumanMessage (message req) # ms \<and>
           list_all (\<lambda>m. \<not> is_system m) ms \<and>
           (\<forall>ref'. ref' \<noteq> ref \<longrightarrow> ref' < length (heap st) \<longrightarrow> heap st' ! ref' = heap st ! ref')"
    by blast
qed

lemma seeded_session_history:
  assumes "seeded st"
  shows "\<exists>rest. session_history st sid = SystemMessage server_system_prompt # rest \<and>
           list_all (\<lambda>m. \<not> is_system m) rest"
  using assms by (cases "session_db st sid") (auto simp: session_history_def seeded_def)

lemma seeded_get_session_history:
  assumes "wf_sessions st" and "seeded st"
  shows "seeded (snd (get_session_history sid st))"
proof -
  obtain ref st1 where g: "get_session_history sid st = (ref, st1)"
    by (cases "get_session_history sid st")
  note e = get_session_history_effect [OF assms(1) g]
  have "seeded st1"
    unfolding seeded_def
  proof (intro allI impI)
    fix s x assume sx: "session_db st1 s = Some x"
    show "\<exists>rest. heap st1 ! x = SystemMessage server_system_prompt # rest \<and>
            list_all (\<lambda>m. \<not> is_system m) rest"
    proof (cases "s = sid")
      case True
      with sx e(2) e(4) seeded_session_history [OF assms(2), of sid] show ?thesis by simp
    next
      case False
      with sx e(5) [of s] have old: "session_db st s = Some x" by simp
      with assms(1) have "x < length (heap st)" by (auto simp: wf_sessions_def)
      with e(6) [of x] old assms(2) show ?thesis by (auto simp: seeded_def)
    qed
  qed
  with g show ?thesis by simp
qed

lemma seeded_chat_endpoint:
  assumes "wf_sessions st" and "seeded st"
  shows "seeded (snd (chat_endpoint env req st))"
proof -
  obtain r st' where c: "chat_endpoint env req st = (r, st')"
    by (cases "chat_endpoint env req st")
  note e = chat_endpoint_effect [OF assms(1) c]
  from e(1) obtain ref ms where
    ref: "session_db st' (session_id req) = Some ref"
    and h: "heap st' ! ref = session_history st (session_id req) @ HumanMessage (message req) # ms"
    and ms: "list_all (\<lambda>m. \<not> is_system m) ms"
    and others: "\<forall>ref'. ref' \<noteq> ref \<longrightarrow> ref' < length (heap st) \<longrightarrow> heap st' ! ref' = heap st ! ref'"
    by blast
  have "seeded st'"
    unfolding seeded_def
  proof (intro allI impI)
    fix s x assume sx: "session_db st' s = Some x"
    show "\<exists>rest. heap st' ! x = SystemMessage server_system_prompt # rest \<and>
            list_all (\<lambda>m. \<not> is_system m) rest"
    proof (cases "s = session_id req")
      case True
      with sx ref have "x = ref" by simp
      with h ms seeded_session_history [OF assms(2), of "session_id req"] show ?thesis
        by auto
    next
      case False
      with sx e(3) [of s] have old: "session_db st s = Some x" by simp
      with assms(1) have lt: "x < length (heap st)" by (auto simp: wf_sessions_def)
      from e(2) sx ref False have "x \<noteq> ref" unfolding wf_sessions_def by blast
      with others lt have "heap st' ! x = heap st ! x" by simp
      with old assms(2) show ?thesis by (auto simp: seeded_def)
    qed
  qed
  with c show ?thesis by simp
qed

lemma reachable_invariant:
  assumes "reachable env st"
  shows "wf_sessions st \<and> seeded st"
  using assms
proof (induction rule: reachable.induct)
  case (start w)
  have "seeded (server_start w)" by (simp add: seeded_def server_start_def)
  with wf_start [of w] show ?case by simp
next
  case (access st sid)
  then have wf: "wf_sessions st" and sd: "seeded st" by simp_all
  obtain ref st1 where g: "get_session_history sid st = (ref, st1)"
    by (cases "get_session_history sid st")
  from get_session_history_effect(1) [OF wf g] g seeded_get_session_history [OF wf sd, of sid]
  show ?case by simp
next
  case (request st req)
  then have wf: "wf_sessions st" and sd: "seeded st" by simp_all
  obtain r st' where c: "chat_endpoint env req st = (r, st')"
    by (cases "chat_endpoint env req st")
  from chat_endpoint_effect(2) [OF wf c] c seeded_chat_endpoint [OF wf sd, of env req]
  show ?case by simp
qed

text \<open>
  C8.  The first access of a session makes a new list that holds the system message and
  nothing else; an access after that returns the same list and changes nothing; and in
  every state the server gets into, the list of every session starts with the system
  message and holds no second system message.
\<close>

theorem C8_session_seed:
  "(session_db st sid = None \<longrightarrow>
      fst (get_session_history sid st) = length (heap st) \<and>
      heap (snd (get_session_history sid st)) =
        heap st @ [[SystemMessage server_system_prompt]] \<and>
      heap (snd (get_session_history sid st)) ! fst (get_session_history sid st) =
        [SystemMessage server_system_prompt] \<and>
      session_db (snd (get_session_history sid st)) sid = Some (length (heap st))) \<and>
   (get_session_history sid st = (ref, st1) \<longrightarrow> get_session_history sid st1 = (ref, st1)) \<and>
   (reachable env st \<longrightarrow> session_db st sid = Some ref \<longrightarrow>
      ref < length (heap st) \<and>
      (\<exists>rest. heap st ! ref = SystemMessage server_system_prompt # rest \<and>
              list_all (\<lambda>m. \<not> is_system m) rest))"
proof (intro conjI impI)
  assume n: "session_db st sid = None"
  note g = get_session_history_new [OF n]
  show "fst (get_session_history sid st) = length (heap st)"
    by (simp add: g)
  show "heap (snd (get_session_history sid st)) = heap st @ [[SystemMessage server_system_prompt]]"
    by (simp add: g)
  show "heap (snd (get_session_history sid st)) ! fst (get_session_history sid st) =
          [SystemMessage server_system_prompt]"
    by (simp add: g)
  show "session_db (snd (get_session_history sid st)) sid = Some (length (heap st))"
    by (simp add: g)
next
  assume g: "get_session_history sid st = (ref, st1)"
  have "session_db st1 sid = Some ref"
    using g by (cases "session_db st sid") (auto simp: get_session_history_def Let_def)
  then show "get_session_history sid st1 = (ref, st1)"
    by (rule get_session_history_old)
next
  assume r: "reachable env st" and s: "session_db st sid = Some ref"
  from reachable_invariant [OF r] s show "ref < length (heap st)"
    by (auto simp: wf_sessions_def)
next
  assume r: "reachable env st" and s: "session_db st sid = Some ref"
  from reachable_invariant [OF r] s
  show "\<exists>rest. heap st ! ref = SystemMessage server_system_prompt # rest \<and>
              list_all (\<lambda>m. \<not> is_system m) rest"
    by (auto simp: seeded_def)
qed

theorem C8_session_seed_witness:
  "fst (get_session_history ''s1'' (server_start ())) = 0 \<and>
   heap (snd (get_session_history ''s1'' (server_start ()))) =
     [[SystemMessage server_system_prompt]] \<and>
   get_session_history ''s1'' (snd (get_session_history ''s1'' (server_start ()))) =
     get_session_history ''s1'' (server_start ()) \<and>
   (\<exists>rest. heap (snd (chat_endpoint (demo_env (answer ''hi'') (answer ''done'')) demo_request
                      (server_start ()))) ! 0 =
             SystemMessage server_system_prompt # rest \<and>
           list_all (\<lambda>m. \<not> is_system m) rest)"
proof -
  let ?env = "demo_env (answer ''hi'') (answer ''done'')"
  let ?st = "server_start () :: unit server_state"
  let ?st' = "snd (chat_endpoint ?env demo_request ?st)"
  have n: "session_db ?st ''s1'' = None" "heap ?st = []"
    by (simp_all add: server_start_def)
  obtain ref st1 where g: "get_session_history ''s1'' ?st = (ref, st1)"
    by (cases "get_session_history ''s1'' ?st")
  have r: "reachable ?env ?st'"
    by (intro reachable.request reachable.start)
  have s: "session_db ?st' ''s1'' = Some 0"
    by (simp add: server_run)
  from C8_session_seed [of ?st "''s1''" ref st1 ?env] n g
  have a: "fst (get_session_history ''s1'' ?st) = 0"
    and b: "heap (snd (get_session_history ''s1'' ?st)) = [[SystemMessage server_system_prompt]]"
    and c: "get_session_history ''s1'' st1 = (ref, st1)"
    by simp_all
  from c g have c': "get_session_history ''s1'' (snd (get_session_history ''s1'' ?st)) =
     get_session_history ''s1'' ?st" by simp
  from C8_session_seed [of ?st' "''s1''" 0 _ ?env] r s
  have d: "\<exists>rest. heap ?st' ! 0 = SystemMessage server_system_prompt # rest \<and>
           list_all (\<lambda>m. \<not> is_system m) rest"
    by blast
  from a b c' d show ?thesis by blast
qed

subsection \<open>A request and the other sessions\<close>

text \<open>
  C10.  In every state the server gets into, a request changes nothing for a session
  other than its own: that session names the list it named, the list holds what it held,
  and the sessions that exist are those that existed and the session of the request.  To
  the history of its own session the request only appends, first its message.
\<close>

theorem C10_other_sessions_unchanged:
  assumes "reachable env st" and "sid \<noteq> session_id req"
    and "chat_endpoint env req st = (r, st')"
  shows "session_db st' sid = session_db st sid \<and>
         (\<forall>ref. session_db st sid = Some ref \<longrightarrow> heap st' ! ref = heap st ! ref) \<and>
         dom (session_db st') - {session_id req} = dom (session_db st) - {session_id req} \<and>
         (\<exists>ref ms. session_db st' (session_id req) = Some ref \<and>
            heap st' ! ref =
              session_history st (session_id req) @ HumanMessage (message req) # ms)"
proof -
  from reachable_invariant [OF assms(1)] have wf: "wf_sessions st" by simp
  note e = chat_endpoint_effect [OF wf assms(3)]
  from e(1) obtain ref0 ms where
    ref0: "session_db st' (session_id req) = Some ref0"
    and h: "heap st' ! ref0 =
              session_history st (session_id req) @ HumanMessage (message req) # ms"
    and others: "\<forall>ref'. ref' \<noteq> ref0 \<longrightarrow> ref' < length (heap st) \<longrightarrow> heap st' ! ref' = heap st ! ref'"
    by blast
  from e(3) [OF assms(2)] have db: "session_db st' sid = session_db st sid" .
  have lists: "\<forall>ref. session_db st sid = Some ref \<longrightarrow> heap st' ! ref = heap st ! ref"
  proof (intro allI impI)
    fix ref assume s: "session_db st sid = Some ref"
    with wf have lt: "ref < length (heap st)" unfolding wf_sessions_def by blast
    from s db have "session_db st' sid = Some ref" by simp
    with e(2) ref0 assms(2) have "ref \<noteq> ref0" unfolding wf_sessions_def by blast
    with others lt show "heap st' ! ref = heap st ! ref" by simp
  qed
  from e(4) have "dom (session_db st') - {session_id req} = dom (session_db st) - {session_id req}"
    by auto
  with db lists ref0 h show ?thesis by blast
qed

theorem C10_other_sessions_unchanged_witness:
  "session_db (snd (chat_endpoint (demo_env (answer ''hi'') (answer ''done'')) demo_request
       (snd (chat_endpoint (demo_env (answer ''hi'') (answer ''done'')) other_request
               (server_start ()))))) ''s2'' = Some 0 \<and>
   heap (snd (chat_endpoint (demo_env (answer ''hi'') (answer ''done'')) demo_request
       (snd (chat_endpoint (demo_env (answer ''hi'') (answer ''done'')) other_request
               (server_start ()))))) ! 0 =
     [SystemMessage server_system_prompt, HumanMessage ''good morning'', AIMessage (answer ''hi'')]"
proof -
  let ?env = "demo_env (answer ''hi'') (answer ''done'')"
  let ?st = "snd (chat_endpoint ?env other_request (server_start ()))"
  obtain r st' where c: "chat_endpoint ?env demo_request ?st = (r, st')"
    by (cases "chat_endpoint ?env demo_request ?st")
  have reach: "reachable ?env ?st"
    by (intro reachable.request reachable.start)
  have ne: "''s2'' \<noteq> session_id demo_request"
    by (simp add: demo_request_def)
  have s: "session_db ?st ''s2'' = Some 0"
    by (simp add: server_run other_request_def)
  have h: "heap ?st ! 0 =
     [SystemMessage server_system_prompt, HumanMessage ''good morning'', AIMessage (answer ''hi'')]"
    by (simp add: server_run other_request_def)
  from C10_other_sessions_unchanged [OF reach ne c] s h
  have "session_db st' ''s2'' = Some 0 \<and>
        heap st' ! 0 =
          [SystemMessage server_system_prompt, HumanMessage ''good morning'', AIMessage (answer ''hi'')]"
    by simp
  with c show ?thesis by simp
qed

subsection \<open>Exceptions that leave the pass\<close>







end
